theory Spec2Isabelle
  imports Main "HOL-Library.Sublist" "HOL-Library.AList"
begin

section \<open>JSON values, exceptions and log entries\<close>

text \<open>
  The documents handled by \<^verbatim>\<open>SbomCommand.py\<close> are the Python values that
  \<^verbatim>\<open>read_json\<close> returns and \<^verbatim>\<open>write_json\<close> stores: \<^verbatim>\<open>None\<close>, booleans,
  integers, strings, lists and dictionaries with string keys. A dictionary is an
  association list in insertion order. JSON numbers are integers here; floating point
  numbers are outside the model.
\<close>

datatype json =
    JNull
  | JBool bool
  | JInt int
  | JStr string
  | JArr "json list"
  | JObj "(string \<times> json) list"

text \<open>
  Python exceptions, each with the text that \<^verbatim>\<open>str(error)\<close> shows (for a
  \<open>KeyError\<close> that is the \<^verbatim>\<open>repr\<close> of the key; the texts of the interpreter's own
  exceptions are those of CPython 3.11). \<open>WafError\<close> is \<^verbatim>\<open>waflib.Errors.WafError\<close>.
\<close>

datatype error =
    KeyError string
  | TypeError string
  | AttributeError string
  | OSError string
  | ValueError string
  | WafError string

definition str_error :: "error \<Rightarrow> string" where
  "str_error e =
     (case e of KeyError m \<Rightarrow> m | TypeError m \<Rightarrow> m | AttributeError m \<Rightarrow> m
      | OSError m \<Rightarrow> m | ValueError m \<Rightarrow> m | WafError m \<Rightarrow> m)"

text \<open>\<^verbatim>\<open>repr\<close> of a string without quotes or backslashes in it: the string in single quotes.\<close>

definition py_repr :: "string \<Rightarrow> string" where
  "py_repr s = [CHR 0x27] @ s @ [CHR 0x27]"

text \<open>\<^verbatim>\<open>waflib.Logs.warn\<close> and \<^verbatim>\<open>waflib.Logs.info\<close> append to a log.\<close>

datatype log_entry = Warn string | Info string

section \<open>Projects and the project graph\<close>

text \<open>
  A \<^verbatim>\<open>Project\<close> is a handle of type \<open>'p\<close>; two projects are the same node exactly when
  their handles are equal. \<open>task_generator\<close> holds the optional attributes that the code
  reads with \<^verbatim>\<open>getattr(project.TaskGenerator, ..., None)\<close>.
\<close>

record task_generator =
  version_number :: "string option"
  license_name :: "string option"
  sbom_package_url :: "string option"
  sbom_unique_id :: "string option"

text \<open>
  The build context: the accessors of a project, the classifiers of
  \<^verbatim>\<open>Waf.Projects.Project\<close> (applied to the project's task generator), the two queries
  of \<^verbatim>\<open>bld.ProjectGraph\<close>, and the command line options. The classifiers, the graph and
  the options are not part of \<^verbatim>\<open>SbomCommand.py\<close>; they are parameters. A set of
  projects returned by the graph is the list of its elements in iteration order; each
  call of a graph query is taken to return a set object of its own with these elements, and
  what the caller does to that object is recorded in the caller's result.
  \<open>Repr\<close> is \<^verbatim>\<open>repr(project)\<close>, the text of a \<^verbatim>\<open>KeyError\<close> on a dictionary keyed by
  projects.
\<close>

record 'p build_context =
  Name :: "'p \<Rightarrow> string"
  Repr :: "'p \<Rightarrow> string"
  TaskGenerator :: "'p \<Rightarrow> task_generator"
  IsThirdParty :: "'p \<Rightarrow> bool"
  IsLibrary :: "'p \<Rightarrow> bool"
  IsDefaultVersionProject :: "'p \<Rightarrow> bool"
  GetAllDependencies :: "'p \<Rightarrow> 'p list"
  GetImmediateDependencies :: "'p \<Rightarrow> 'p list"
  product_version :: string
  sbom_document_version :: int

section \<open>Project Metadata Resolver: \<^verbatim>\<open>_GetSbomComponentJsonObject\<close>\<close>

text \<open>
  \<^verbatim>\<open>s.pop()\<close> on a Python set removes one element from the set object and returns it;
  on an empty set it raises \<^verbatim>\<open>KeyError('pop from an empty set')\<close>. The result is the
  element and the contents left in the set object.
\<close>

definition set_pop :: "'a list \<Rightarrow> error + ('a \<times> 'a list)" where
  "set_pop s =
     (case s of
        [] \<Rightarrow> Inl (KeyError (py_repr ''pop from an empty set''))
      | x # rest \<Rightarrow> Inr (x, rest))"

text \<open>
  The result of the resolver: the component, the warnings it logged, and the effect on the
  set object that \<^verbatim>\<open>GetImmediateDependencies\<close> handed out (\<open>None\<close> when the graph was
  not asked; otherwise the contents of that object when the function returns).
\<close>

record 'p resolved =
  component :: json
  warnings :: "log_entry list"
  immediate_dependencies_after :: "'p list option"

text \<open>
  An attribute with the inheritance step of lines 412-419, 435-441 and 469-476: the
  project's own value when it is not \<^verbatim>\<open>None\<close>, else the referenced project's value when
  there is a referenced project.
\<close>

definition attribute_or_inherited ::
  "'p build_context \<Rightarrow> (task_generator \<Rightarrow> string option) \<Rightarrow> 'p \<Rightarrow> 'p option \<Rightarrow> string option" where
  "attribute_or_inherited ctx attr project inherited_version_project =
     (case attr (TaskGenerator ctx project) of
        Some v \<Rightarrow> Some v
      | None \<Rightarrow>
          (case inherited_version_project of
             None \<Rightarrow> None
           | Some q \<Rightarrow> attr (TaskGenerator ctx q)))"

definition version_warning :: "string \<Rightarrow> string" where
  "version_warning n = ''No version number provided for third-party project '' @ n @
     ''. A generic version number will be used, which likely will not meet security compliance requirements.''"

definition license_warning :: "string \<Rightarrow> string" where
  "license_warning n = ''No license name provided for third-party project '' @ n @
     ''. A generic license name will be used, which likely will not meet security compliance requirements.''"

definition purl_warning :: "string \<Rightarrow> string" where
  "purl_warning n = ''No SBOM Package Url (PURL) provided for third-party project '' @ n @
     ''. A generic PURL will be used, which likely will not meet security compliance requirements.''"

text \<open>
  Lines 403-408: the project a default version project inherits from, and what is left in
  the set object the graph returned.
\<close>

definition inherited_version_project_of ::
  "'p build_context \<Rightarrow> 'p \<Rightarrow> error + ('p option \<times> 'p list option)" where
  "inherited_version_project_of ctx project =
     (if IsDefaultVersionProject ctx project
      then (case set_pop (GetImmediateDependencies ctx project) of
              Inl e \<Rightarrow> Inl e
            | Inr (q, rest) \<Rightarrow> Inr (Some q, Some rest))
      else Inr (None, None))"

definition GetSbomComponentJsonObject :: "'p build_context \<Rightarrow> 'p \<Rightarrow> error + 'p resolved" where
  "GetSbomComponentJsonObject ctx project =
     (case inherited_version_project_of ctx project of
        Inl e \<Rightarrow> Inl e
      | Inr (inherited_version_project, immediate_dependencies) \<Rightarrow>
          let project_is_third_party = IsThirdParty ctx project;
              (version, version_log) =
                (case attribute_or_inherited ctx version_number project inherited_version_project of
                   Some v \<Rightarrow> (v, [])
                 | None \<Rightarrow>
                     if project_is_third_party
                     then (''Unknown'', [Warn (version_warning (Name ctx project))])
                     else (product_version ctx, []));
              (license, license_log) =
                (case attribute_or_inherited ctx license_name project inherited_version_project of
                   Some l \<Rightarrow> (l, [])
                 | None \<Rightarrow>
                     if project_is_third_party
                     then (''Unknown Third-Party License'', [Warn (license_warning (Name ctx project))])
                     else (''Your Organization Proprietary'', []));
              component_type = (if IsLibrary ctx project then ''library'' else ''application'');
              package_url_provided =
                attribute_or_inherited ctx sbom_package_url project inherited_version_project;
              (package_url, package_url_log) =
                (if project_is_third_party \<and> package_url_provided = None
                 then (Some (''pkg:generic/'' @ Name ctx project @ ''@'' @ version),
                       [Warn (purl_warning (Name ctx project))])
                 else (package_url_provided, []));
              unique_id =
                (case sbom_unique_id (TaskGenerator ctx project) of
                   Some u \<Rightarrow> u
                 | None \<Rightarrow> Name ctx project)
          in Inr \<lparr> component =
                     JObj ([(''bom-ref'', JStr unique_id),
                            (''type'', JStr component_type),
                            (''name'', JStr (Name ctx project)),
                            (''version'', JStr version),
                            (''licenses'', JArr [JObj [(''license'', JObj [(''name'', JStr license)])]])]
                           @ (case package_url of None \<Rightarrow> [] | Some u \<Rightarrow> [(''purl'', JStr u)])),
                   warnings = version_log @ license_log @ package_url_log,
                   immediate_dependencies_after = immediate_dependencies \<rparr>)"

section \<open>Python operations on JSON values\<close>

definition type_name :: "json \<Rightarrow> string" where
  "type_name v =
     (case v of JNull \<Rightarrow> ''NoneType'' | JBool _ \<Rightarrow> ''bool'' | JInt _ \<Rightarrow> ''int''
      | JStr _ \<Rightarrow> ''str'' | JArr _ \<Rightarrow> ''list'' | JObj _ \<Rightarrow> ''dict'')"

text \<open>\<^verbatim>\<open>d[k]\<close> for a string \<open>k\<close>: only a dictionary can be indexed by a string.\<close>

definition py_getitem :: "json \<Rightarrow> string \<Rightarrow> error + json" where
  "py_getitem d k =
     (case d of
        JObj kvs \<Rightarrow> (case map_of kvs k of None \<Rightarrow> Inl (KeyError (py_repr k)) | Some v \<Rightarrow> Inr v)
      | JArr _ \<Rightarrow> Inl (TypeError ''list indices must be integers or slices, not str'')
      | JStr _ \<Rightarrow> Inl (TypeError (''string indices must be integers, not '' @ py_repr ''str''))
      | _ \<Rightarrow> Inl (TypeError (py_repr (type_name d) @ '' object is not subscriptable'')))"

text \<open>
  \<^verbatim>\<open>d[k] = v\<close> on a dictionary: the key keeps its place, a new key goes last. The code
  assigns only to objects that it has read a key of before, which are dictionaries.
\<close>

definition py_setitem :: "json \<Rightarrow> string \<Rightarrow> json \<Rightarrow> json" where
  "py_setitem d k v = (case d of JObj kvs \<Rightarrow> JObj (AList.update k v kvs) | _ \<Rightarrow> d)"

text \<open>
  \<^verbatim>\<open>for x in v\<close>: a list gives its elements, a dictionary its keys, a string its
  characters (strings of length one); nothing else can be iterated.
\<close>

definition py_iter :: "json \<Rightarrow> error + json list" where
  "py_iter v =
     (case v of
        JArr xs \<Rightarrow> Inr xs
      | JObj kvs \<Rightarrow> Inr (map (\<lambda>kv. JStr (fst kv)) kvs)
      | JStr s \<Rightarrow> Inr (map (\<lambda>c. JStr [c]) s)
      | _ \<Rightarrow> Inl (TypeError (py_repr (type_name v) @ '' object is not iterable'')))"

text \<open>
  Hashing, as a set or a dictionary does for its keys: lists and dictionaries are
  unhashable. The result is the key under which the value is stored; \<^verbatim>\<open>True\<close> and
  \<^verbatim>\<open>False\<close> are the same keys as \<^verbatim>\<open>1\<close> and \<^verbatim>\<open>0\<close>.
\<close>

definition py_key :: "json \<Rightarrow> json" where
  "py_key v = (case v of JBool b \<Rightarrow> JInt (if b then 1 else 0) | _ \<Rightarrow> v)"

definition py_hash :: "json \<Rightarrow> error + json" where
  "py_hash v =
     (case v of
        JArr _ \<Rightarrow> Inl (TypeError (''unhashable type: '' @ py_repr ''list''))
      | JObj _ \<Rightarrow> Inl (TypeError (''unhashable type: '' @ py_repr ''dict''))
      | _ \<Rightarrow> Inr (py_key v))"

text \<open>\<^verbatim>\<open>v.append(x)\<close>: only a list has \<^verbatim>\<open>append\<close>.\<close>

definition py_append :: "json \<Rightarrow> json \<Rightarrow> error + json" where
  "py_append v x =
     (case v of
        JArr xs \<Rightarrow> Inr (JArr (xs @ [x]))
      | _ \<Rightarrow> Inl (AttributeError (py_repr (type_name v) @ '' object has no attribute '' @ py_repr ''append'')))"

text \<open>
  \<^verbatim>\<open>u in v\<close> for a hashable \<open>u\<close> (a string, an integer, a boolean or \<^verbatim>\<open>None\<close>):
  equality with an element of a list, a key of a dictionary, a substring of a string.
\<close>

definition py_contains :: "json \<Rightarrow> json \<Rightarrow> error + bool" where
  "py_contains v u =
     (case v of
        JArr xs \<Rightarrow> Inr (py_key u \<in> set (map py_key xs))
      | JObj kvs \<Rightarrow> Inr (u \<in> set (map (\<lambda>kv. JStr (fst kv)) kvs))
      | JStr s \<Rightarrow>
          (case u of
             JStr t \<Rightarrow> Inr (sublist t s)
           | _ \<Rightarrow> Inl (TypeError (py_repr ''in <string>'' @ '' requires string as left operand, not '' @ type_name u)))
      | _ \<Rightarrow> Inl (TypeError (''argument of type '' @ py_repr (type_name v) @ '' is not iterable'')))"

section \<open>Component Graph Builder: \<^verbatim>\<open>_GetSbomComponentJsonObjectsForProjectAndDependencies\<close>\<close>

text \<open>
  \<^verbatim>\<open>project_to_unique_project_id_lookup\<close> is a \<^verbatim>\<open>dict[Project, str]\<close>: an association
  list in insertion order. Line 357 reads the unique id of the component that the resolver
  built, \<^verbatim>\<open>project_id: str = component["bom-ref"]\<close>; the resolver always puts a string
  there, and \<open>bom_ref\<close> is that read (its last case, a value that is not a string, never
  arises for a component of the resolver; see \<open>resolved_bom_ref\<close>).
\<close>

type_synonym 'p id_lookup = "('p \<times> string) list"

definition bom_ref :: "json \<Rightarrow> error + string" where
  "bom_ref c =
     (case py_getitem c ''bom-ref'' of
        Inl e \<Rightarrow> Inl e
      | Inr (JStr s) \<Rightarrow> Inr s
      | Inr v \<Rightarrow> Inl (TypeError (''bom-ref is not a str: '' @ type_name v)))"

definition duplicate_bom_ref_message :: "string \<Rightarrow> string" where
  "duplicate_bom_ref_message project_id =
     ''Duplicate bom-ref detected in SBOM generation: '' @ project_id @ ''.'' @ [CHR 0x0A] @
     ''                    Each component must have a unique bom-ref.''"

text \<open>
  The loop of lines 344-371 over the projects in iteration order. The state is the list of
  components built so far, the lookup, and the log.
\<close>

fun components_loop ::
  "'p build_context \<Rightarrow> 'p list \<Rightarrow> json list \<times> 'p id_lookup \<times> log_entry list \<Rightarrow>
   error + (json list \<times> 'p id_lookup \<times> log_entry list)" where
  "components_loop ctx [] st = Inr st"
| "components_loop ctx (current_project # rest) (sbom_component_json_objects, lookup, log) =
     (if map_of lookup current_project \<noteq> None
      then components_loop ctx rest (sbom_component_json_objects, lookup, log)
      else
        (case GetSbomComponentJsonObject ctx current_project of
           Inl e \<Rightarrow> Inl e
         | Inr r \<Rightarrow>
             (case bom_ref (component r) of
                Inl e \<Rightarrow> Inl e
              | Inr project_id \<Rightarrow>
                  if project_id \<in> set (map snd lookup)
                  then Inl (WafError (duplicate_bom_ref_message project_id))
                  else components_loop ctx rest
                         (sbom_component_json_objects @ [component r],
                          lookup @ [(current_project, project_id)],
                          log @ warnings r))))"

text \<open>
  \<^verbatim>\<open>{project} | dependencies\<close> is a set: each project once. Python does not specify the
  order in which a set is iterated; the lemmas about \<open>components_loop\<close> hold for every list
  of projects.
\<close>

definition GetSbomComponentJsonObjectsForProjectAndDependencies ::
  "'p build_context \<Rightarrow> 'p \<Rightarrow> 'p id_lookup \<Rightarrow> error + (json list \<times> 'p id_lookup \<times> log_entry list)" where
  "GetSbomComponentJsonObjectsForProjectAndDependencies ctx project lookup =
     components_loop ctx (List.insert project (remdups (GetAllDependencies ctx project))) ([], lookup, [])"

section \<open>Dependency Edge Builder: \<^verbatim>\<open>_GetSbomDependencyJsonObjects\<close>\<close>

text \<open>\<^verbatim>\<open>lookup[project]\<close> raises \<^verbatim>\<open>KeyError\<close> for a project that is not a key.\<close>

definition lookup_project :: "'p build_context \<Rightarrow> 'p id_lookup \<Rightarrow> 'p \<Rightarrow> error + string" where
  "lookup_project ctx lookup project =
     (case map_of lookup project of None \<Rightarrow> Inl (KeyError (Repr ctx project)) | Some i \<Rightarrow> Inr i)"

fun immediate_dependency_unique_ids ::
  "'p build_context \<Rightarrow> 'p id_lookup \<Rightarrow> 'p list \<Rightarrow> error + string list" where
  "immediate_dependency_unique_ids ctx lookup [] = Inr []"
| "immediate_dependency_unique_ids ctx lookup (immediate_dependency # rest) =
     (case lookup_project ctx lookup immediate_dependency of
        Inl e \<Rightarrow> Inl e
      | Inr i \<Rightarrow>
          (case immediate_dependency_unique_ids ctx lookup rest of
             Inl e \<Rightarrow> Inl e
           | Inr ids \<Rightarrow> Inr (i # ids)))"

fun dependencies_loop ::
  "'p build_context \<Rightarrow> 'p id_lookup \<Rightarrow> ('p \<times> string) list \<Rightarrow> error + json list" where
  "dependencies_loop ctx lookup [] = Inr []"
| "dependencies_loop ctx lookup ((project, unique_id) # rest) =
     (case immediate_dependency_unique_ids ctx lookup (GetImmediateDependencies ctx project) of
        Inl e \<Rightarrow> Inl e
      | Inr ids \<Rightarrow>
          (case dependencies_loop ctx lookup rest of
             Inl e \<Rightarrow> Inl e
           | Inr sbom_dependency_json_objects \<Rightarrow>
               Inr (JObj [(''ref'', JStr unique_id), (''dependsOn'', JArr (map JStr ids))]
                    # sbom_dependency_json_objects)))"

definition GetSbomDependencyJsonObjects :: "'p build_context \<Rightarrow> 'p id_lookup \<Rightarrow> error + json list" where
  "GetSbomDependencyJsonObjects ctx lookup = dependencies_loop ctx lookup lookup"

section \<open>Files\<close>

text \<open>
  A \<^verbatim>\<open>waflib.Node.Node\<close> as far as the code uses it: the file is missing, holds text that
  is not JSON, or holds a JSON value; \<^verbatim>\<open>read_json\<close> raises on the first two and leaves
  the file as it is.
\<close>

datatype file_content = Missing | NotJson | Json json

record node =
  content :: file_content
  writable :: bool

definition read_json :: "node \<Rightarrow> error + json" where
  "read_json n =
     (case content n of
        Missing \<Rightarrow> Inl (OSError ''No such file or directory'')
      | NotJson \<Rightarrow> Inl (ValueError ''Expecting value'')
      | Json j \<Rightarrow> Inr j)"

text \<open>
  \<^verbatim>\<open>write_json\<close> is waflib's, not part of \<^verbatim>\<open>SbomCommand.py\<close>. A write operation takes the
  file and the value and gives the file afterwards and the exception it raised, if any.
  The merge is defined for any write operation. \<open>write_json\<close> is the write operation under
  the assumption that a write is all or nothing: it replaces the content, or, on a file
  that cannot be opened for writing, it raises and the file stays as it is. A write that
  fails after the file was opened for writing (which truncates it) is not all or nothing:
  \<open>truncating_write\<close> among the example inputs is such a write.
\<close>

type_synonym write_operation = "node \<Rightarrow> json \<Rightarrow> node \<times> error option"

definition write_json :: write_operation where
  "write_json n j =
     (if writable n then (n\<lparr>content := Json j\<rparr>, None)
      else (n, Some (OSError ''Permission denied'')))"

section \<open>Document Assembler: \<^verbatim>\<open>_GenerateInitialCustomSoftwareSbom\<close>\<close>

definition COMMAND_NAME :: string where
  "COMMAND_NAME = ''Waf SBOM Command''"

definition COMMAND_VERSION :: string where
  "COMMAND_VERSION = ''1.0.0''"

text \<open>
  The assembled document, the lookup as the call leaves it and the log; the timestamp is
  the clock's answer at line 150, a parameter. The document is what \<^verbatim>\<open>write_json\<close>
  stores in \<^verbatim>\<open>CustomSoftwareSbom.json\<close>.
\<close>

definition GenerateInitialCustomSoftwareSbom ::
  "'p build_context \<Rightarrow> string \<Rightarrow> 'p \<Rightarrow> 'p id_lookup \<Rightarrow> error + (json \<times> 'p id_lookup \<times> log_entry list)" where
  "GenerateInitialCustomSoftwareSbom ctx sbom_creation_timestamp_in_utc target_project lookup =
     (case GetSbomComponentJsonObjectsForProjectAndDependencies ctx target_project lookup of
        Inl e \<Rightarrow> Inl e
      | Inr (sbom_component_json_objects, lookup', log) \<Rightarrow>
          (case GetSbomDependencyJsonObjects ctx lookup' of
             Inl e \<Rightarrow> Inl e
           | Inr sbom_dependency_json_objects \<Rightarrow>
               Inr (JObj [(''bomFormat'', JStr ''CycloneDX''),
                          (''specVersion'', JStr ''1.6''),
                          (''version'', JInt (sbom_document_version ctx)),
                          (''metadata'',
                             JObj [(''timestamp'', JStr sbom_creation_timestamp_in_utc),
                                   (''tools'', JArr [JObj [(''name'', JStr COMMAND_NAME),
                                                           (''version'', JStr COMMAND_VERSION)]])]),
                          (''components'', JArr sbom_component_json_objects),
                          (''dependencies'', JArr sbom_dependency_json_objects)],
                    lookup', log)))"

section \<open>Fragment Merge Engine: \<^verbatim>\<open>_MergeDependencyMetadataSbomIntoCustomSoftwareSbom\<close>\<close>

text \<open>
  Line 586, the set comprehension over the components of the custom software SBOM: each
  component's \<^verbatim>\<open>bom-ref\<close> is read and hashed in turn. The set is the list of its keys.
\<close>

fun unique_ids_defined :: "json list \<Rightarrow> error + json list" where
  "unique_ids_defined [] = Inr []"
| "unique_ids_defined (c # rest) =
     (case py_getitem c ''bom-ref'' of
        Inl e \<Rightarrow> Inl e
      | Inr i \<Rightarrow>
          (case py_hash i of
             Inl e \<Rightarrow> Inl e
           | Inr k \<Rightarrow>
               (case unique_ids_defined rest of
                  Inl e \<Rightarrow> Inl e
                | Inr ks \<Rightarrow> Inr (k # ks))))"

text \<open>
  Lines 588-605, the loop over the components of the dependency metadata. The state is
  the list object \<^verbatim>\<open>custom_software_sbom_json_object['components']\<close> (appended to in
  place), the set of unique ids defined, and the list of unique ids added.
\<close>

fun add_components :: "json list \<Rightarrow> json \<times> json list \<times> json list \<Rightarrow> error + (json \<times> json list \<times> json list)" where
  "add_components [] st = Inr st"
| "add_components (component_from_dependency_metadata # rest)
       (components, unique_ids_initially_defined, unique_ids_added) =
     (case py_getitem component_from_dependency_metadata ''type'' of
        Inl e \<Rightarrow> Inl e
      | Inr component_type \<Rightarrow>
          if JStr ''file'' = component_type
          then add_components rest (components, unique_ids_initially_defined, unique_ids_added)
          else
            (case py_getitem component_from_dependency_metadata ''bom-ref'' of
               Inl e \<Rightarrow> Inl e
             | Inr component_unique_id \<Rightarrow>
                 (case py_hash component_unique_id of
                    Inl e \<Rightarrow> Inl e
                  | Inr k \<Rightarrow>
                      if k \<in> set unique_ids_initially_defined
                      then add_components rest (components, unique_ids_initially_defined, unique_ids_added)
                      else
                        (case py_append components component_from_dependency_metadata of
                           Inl e \<Rightarrow> Inl e
                         | Inr components' \<Rightarrow>
                             add_components rest
                               (components',
                                unique_ids_initially_defined @ [k],
                                unique_ids_added @ [component_unique_id])))))"

text \<open>
  Line 613, the dictionary comprehension over the dependency entries: the key is the
  entry's \<^verbatim>\<open>ref\<close>, the value the entry itself, here its position in the list; a later
  entry with the same \<^verbatim>\<open>ref\<close> replaces an earlier one.
\<close>

fun dependency_entry_lookup :: "json list \<Rightarrow> nat \<Rightarrow> (json \<times> nat) list \<Rightarrow> error + (json \<times> nat) list" where
  "dependency_entry_lookup [] n acc = Inr acc"
| "dependency_entry_lookup (dependency # rest) n acc =
     (case py_getitem dependency ''ref'' of
        Inl e \<Rightarrow> Inl e
      | Inr r \<Rightarrow>
          (case py_hash r of
             Inl e \<Rightarrow> Inl e
           | Inr k \<Rightarrow> dependency_entry_lookup rest (Suc n) (AList.update k n acc)))"

text \<open>Lines 616-622, the loop that appends the added unique ids to \<^verbatim>\<open>dependsOn\<close>.\<close>

fun add_dependencies :: "json list \<Rightarrow> json \<Rightarrow> error + json" where
  "add_dependencies [] direct_dependencies_for_waf_project = Inr direct_dependencies_for_waf_project"
| "add_dependencies (unique_id # rest) direct_dependencies_for_waf_project =
     (case py_contains direct_dependencies_for_waf_project unique_id of
        Inl e \<Rightarrow> Inl e
      | Inr dependency_already_added \<Rightarrow>
          if dependency_already_added
          then add_dependencies rest direct_dependencies_for_waf_project
          else
            (case py_append direct_dependencies_for_waf_project unique_id of
               Inl e \<Rightarrow> Inl e
             | Inr direct_dependencies' \<Rightarrow> add_dependencies rest direct_dependencies'))"

text \<open>
  Lines 584-623 on the two parsed values: the components of the dependency metadata and
  the custom software SBOM. The result is the custom software SBOM as line 626 writes it.
  The appended-to lists are objects inside the document, so the document holds them
  afterwards; the dependency entry that is changed is the one the lookup of line 613
  holds, at its position in the list of line 613 (when the lookup has an entry, that list
  is the \<^verbatim>\<open>dependencies\<close> list of the document).
\<close>

definition merge_components_and_dependencies ::
  "'p build_context \<Rightarrow> 'p \<Rightarrow> 'p id_lookup \<Rightarrow> json \<Rightarrow> json \<Rightarrow> error + json" where
  "merge_components_and_dependencies ctx project lookup
       components_from_dependency_metadata custom_software_sbom_json_object =
     (case py_getitem custom_software_sbom_json_object ''components'' of
        Inl e \<Rightarrow> Inl e
      | Inr components_from_custom_software_sbom \<Rightarrow>
     (case py_iter components_from_custom_software_sbom of
        Inl e \<Rightarrow> Inl e
      | Inr cs \<Rightarrow>
     (case unique_ids_defined cs of
        Inl e \<Rightarrow> Inl e
      | Inr unique_ids_initially_defined \<Rightarrow>
     (case py_iter components_from_dependency_metadata of
        Inl e \<Rightarrow> Inl e
      | Inr fs \<Rightarrow>
     (case add_components fs (components_from_custom_software_sbom, unique_ids_initially_defined, []) of
        Inl e \<Rightarrow> Inl e
      | Inr (components', unique_ids_defined', unique_ids_added) \<Rightarrow>
     (case lookup_project ctx lookup project of
        Inl e \<Rightarrow> Inl e
      | Inr project_unique_id \<Rightarrow>
     (case py_getitem custom_software_sbom_json_object ''dependencies'' of
        Inl e \<Rightarrow> Inl e
      | Inr dependencies \<Rightarrow>
     (case py_iter dependencies of
        Inl e \<Rightarrow> Inl e
      | Inr ds \<Rightarrow>
     (case dependency_entry_lookup ds 0 [] of
        Inl e \<Rightarrow> Inl e
      | Inr unique_id_to_dependency_entry_lookup \<Rightarrow>
     (case map_of unique_id_to_dependency_entry_lookup (JStr project_unique_id) of
        None \<Rightarrow> Inl (KeyError (py_repr project_unique_id))
      | Some n \<Rightarrow>
     (case py_getitem (ds ! n) ''dependsOn'' of
        Inl e \<Rightarrow> Inl e
      | Inr direct_dependencies_for_waf_project \<Rightarrow>
     (case add_dependencies unique_ids_added direct_dependencies_for_waf_project of
        Inl e \<Rightarrow> Inl e
      | Inr direct_dependencies' \<Rightarrow>
          Inr (py_setitem
                 (py_setitem custom_software_sbom_json_object ''components'' components')
                 ''dependencies''
                 (JArr (ds[n := py_setitem (ds ! n) ''dependsOn'' direct_dependencies'])))))))))))))))"

text \<open>
  The body of the \<^verbatim>\<open>try\<close> block, lines 578-628, for a write operation \<open>w\<close>. The custom
  software SBOM file is passed through the steps: the result is the file as the block
  leaves it, and the exception that ended the block, if any. No step before the write of
  line 626 changes the file; the write is the last step that can raise.
\<close>

definition merge_try_block_with ::
  "write_operation \<Rightarrow> 'p build_context \<Rightarrow> 'p \<Rightarrow> 'p id_lookup \<Rightarrow> node \<Rightarrow> node \<Rightarrow> node \<times> error option" where
  "merge_try_block_with w ctx project lookup dependency_metadata_file custom_software_sbom_file =
     (case read_json dependency_metadata_file of
        Inl e \<Rightarrow> (custom_software_sbom_file, Some e)
      | Inr dependency_metadata_json_object \<Rightarrow>
     (case py_getitem dependency_metadata_json_object ''components'' of
        Inl e \<Rightarrow> (custom_software_sbom_file, Some e)
      | Inr components_from_dependency_metadata \<Rightarrow>
     (case read_json custom_software_sbom_file of
        Inl e \<Rightarrow> (custom_software_sbom_file, Some e)
      | Inr custom_software_sbom_json_object \<Rightarrow>
     (case merge_components_and_dependencies ctx project lookup
             components_from_dependency_metadata custom_software_sbom_json_object of
        Inl e \<Rightarrow> (custom_software_sbom_file, Some e)
      | Inr merged \<Rightarrow> w custom_software_sbom_file merged))))"

definition merge_info :: "string \<Rightarrow> string" where
  "merge_info n = ''Components and dependencies for '' @ n @ '' merged into Custom Software SBOM.''"

definition merge_warning :: "string \<Rightarrow> error \<Rightarrow> string" where
  "merge_warning n e =
     ''Failed to merge components and dependencies for '' @ n @ '' into Custom Software SBOM: '' @ str_error e"

text \<open>
  The whole function, for a write operation \<open>w\<close>: \<^verbatim>\<open>except Exception\<close> catches every
  exception of the block. The result is the returned boolean, the log, and the custom
  software SBOM file as the block left it.
\<close>

definition MergeDependencyMetadataSbomIntoCustomSoftwareSbom_with ::
  "write_operation \<Rightarrow> 'p build_context \<Rightarrow> 'p \<Rightarrow> 'p id_lookup \<Rightarrow> node \<Rightarrow> node \<Rightarrow>
   bool \<times> log_entry list \<times> node" where
  "MergeDependencyMetadataSbomIntoCustomSoftwareSbom_with w ctx project lookup
       dependency_metadata_file custom_software_sbom_file =
     (case merge_try_block_with w ctx project lookup dependency_metadata_file custom_software_sbom_file of
        (custom_software_sbom_file', None) \<Rightarrow>
          (True, [Info (merge_info (Name ctx project))], custom_software_sbom_file')
      | (custom_software_sbom_file', Some error) \<Rightarrow>
          (False, [Warn (merge_warning (Name ctx project) error)], custom_software_sbom_file'))"

text \<open>The block and the function with the all-or-nothing \<open>write_json\<close>.\<close>

definition merge_try_block ::
  "'p build_context \<Rightarrow> 'p \<Rightarrow> 'p id_lookup \<Rightarrow> node \<Rightarrow> node \<Rightarrow> node \<times> error option" where
  "merge_try_block ctx project lookup dependency_metadata_file custom_software_sbom_file =
     merge_try_block_with write_json ctx project lookup dependency_metadata_file custom_software_sbom_file"

definition MergeDependencyMetadataSbomIntoCustomSoftwareSbom ::
  "'p build_context \<Rightarrow> 'p \<Rightarrow> 'p id_lookup \<Rightarrow> node \<Rightarrow> node \<Rightarrow> bool \<times> log_entry list \<times> node" where
  "MergeDependencyMetadataSbomIntoCustomSoftwareSbom ctx project lookup
       dependency_metadata_file custom_software_sbom_file =
     MergeDependencyMetadataSbomIntoCustomSoftwareSbom_with write_json ctx project lookup
       dependency_metadata_file custom_software_sbom_file"

section \<open>Example inputs\<close>

text \<open>
  A small project graph. \<open>App\<close> is a first-party application; it uses the third-party
  libraries \<open>Zlib\<close> (no metadata) and \<open>Boost\<close> (a default version project that refers to
  \<open>Boost_1_80\<close>, which has all its metadata). \<open>Foo\<close> is a default version project that
  refers to \<open>Foo_2\<close>, which has a version and a license name but no package URL.
\<close>

datatype example_project = App | Zlib | Boost | Boost_1_80 | Foo | Foo_2

definition no_metadata :: task_generator where
  "no_metadata =
     \<lparr> version_number = None, license_name = None, sbom_package_url = None, sbom_unique_id = None \<rparr>"

definition example_context :: "example_project build_context" where
  "example_context =
     \<lparr> Name = (\<lambda>p. case p of App \<Rightarrow> ''App'' | Zlib \<Rightarrow> ''zlib'' | Boost \<Rightarrow> ''boost''
                   | Boost_1_80 \<Rightarrow> ''boost_1_80'' | Foo \<Rightarrow> ''foo'' | Foo_2 \<Rightarrow> ''foo_2''),
       Repr = (\<lambda>p. ''<Project>''),
       TaskGenerator = (\<lambda>p. case p of
            Boost_1_80 \<Rightarrow> \<lparr> version_number = Some ''1.80.0'', license_name = Some ''BSL-1.0'',
                            sbom_package_url = Some ''pkg:generic/boost@1.80.0'', sbom_unique_id = None \<rparr>
          | Foo_2 \<Rightarrow> \<lparr> version_number = Some ''2.0'', license_name = Some ''MIT'',
                       sbom_package_url = None, sbom_unique_id = None \<rparr>
          | _ \<Rightarrow> no_metadata),
       IsThirdParty = (\<lambda>p. p \<noteq> App),
       IsLibrary = (\<lambda>p. p \<noteq> App),
       IsDefaultVersionProject = (\<lambda>p. p = Boost \<or> p = Foo),
       GetAllDependencies = (\<lambda>p. case p of App \<Rightarrow> [Zlib, Boost, Boost_1_80] | Boost \<Rightarrow> [Boost_1_80]
                                 | Foo \<Rightarrow> [Foo_2] | _ \<Rightarrow> []),
       GetImmediateDependencies = (\<lambda>p. case p of App \<Rightarrow> [Zlib, Boost] | Boost \<Rightarrow> [Boost_1_80]
                                 | Foo \<Rightarrow> [Foo_2] | _ \<Rightarrow> []),
       product_version = ''2.5.0'',
       sbom_document_version = 1 \<rparr>"

text \<open>
  The same graph, where \<open>Zlib\<close> overrides its unique id with \<^verbatim>\<open>boost_1_80\<close>, the name
  (and so the unique id) of another project.
\<close>

definition colliding_context :: "example_project build_context" where
  "colliding_context =
     example_context \<lparr> TaskGenerator := (\<lambda>p. case p of
          Zlib \<Rightarrow> no_metadata \<lparr> sbom_unique_id := Some ''boost_1_80'' \<rparr>
        | _ \<Rightarrow> TaskGenerator example_context p) \<rparr>"

text \<open>
  A dependency metadata SBOM as the filesystem scan writes it: one package and one
  scanned file.
\<close>

definition example_fragment :: json where
  "example_fragment =
     JObj [(''bomFormat'', JStr ''CycloneDX''),
           (''components'',
              JArr [JObj [(''bom-ref'', JStr ''pkgA''), (''type'', JStr ''library''), (''name'', JStr ''pkgA'')],
                    JObj [(''bom-ref'', JStr ''fileX''), (''type'', JStr ''file''),
                          (''name'', JStr ''package-lock.json'')]])]"

text \<open>A custom software SBOM with the components \<open>R\<close> and \<open>pkgA\<close>, where \<open>R\<close> already depends on \<open>pkgA\<close>.\<close>

definition example_document :: json where
  "example_document =
     JObj [(''bomFormat'', JStr ''CycloneDX''),
           (''components'',
              JArr [JObj [(''bom-ref'', JStr ''R''), (''type'', JStr ''application'')],
                    JObj [(''bom-ref'', JStr ''pkgA''), (''type'', JStr ''library'')]]),
           (''dependencies'',
              JArr [JObj [(''ref'', JStr ''R''), (''dependsOn'', JArr [JStr ''pkgA''])],
                    JObj [(''ref'', JStr ''pkgA''), (''dependsOn'', JArr [])]])]"

text \<open>
  The custom software SBOM of \<open>App\<close> in the example graph as it is first assembled, with
  its lookup, and as it is after the merge of the example dependency metadata for \<open>Zlib\<close>.
\<close>

definition example_lookup :: "example_project id_lookup" where
  "example_lookup = [(App, ''App''), (Zlib, ''zlib''), (Boost, ''boost''), (Boost_1_80, ''boost_1_80'')]"

definition example_initial :: json where
  "example_initial =
     JObj [(''bomFormat'', JStr ''CycloneDX''),
           (''specVersion'', JStr ''1.6''),
           (''version'', JInt 1),
           (''metadata'',
              JObj [(''timestamp'', JStr ''2025-01-01T00:00:00+00:00''),
                    (''tools'', JArr [JObj [(''name'', JStr ''Waf SBOM Command''),
                                            (''version'', JStr ''1.0.0'')]])]),
           (''components'',
              JArr [JObj [(''bom-ref'', JStr ''App''), (''type'', JStr ''application''),
                        (''name'', JStr ''App''), (''version'', JStr ''2.5.0''),
                        (''licenses'', JArr [JObj [(''license'', JObj [(''name'', JStr ''Your Organization Proprietary'')])]])],
                  JObj [(''bom-ref'', JStr ''zlib''), (''type'', JStr ''library''),
                        (''name'', JStr ''zlib''), (''version'', JStr ''Unknown''),
                        (''licenses'', JArr [JObj [(''license'', JObj [(''name'', JStr ''Unknown Third-Party License'')])]]),
                        (''purl'', JStr ''pkg:generic/zlib@Unknown'')],
                  JObj [(''bom-ref'', JStr ''boost''), (''type'', JStr ''library''),
                        (''name'', JStr ''boost''), (''version'', JStr ''1.80.0''),
                        (''licenses'', JArr [JObj [(''license'', JObj [(''name'', JStr ''BSL-1.0'')])]]),
                        (''purl'', JStr ''pkg:generic/boost@1.80.0'')],
                  JObj [(''bom-ref'', JStr ''boost_1_80''), (''type'', JStr ''library''),
                        (''name'', JStr ''boost_1_80''), (''version'', JStr ''1.80.0''),
                        (''licenses'', JArr [JObj [(''license'', JObj [(''name'', JStr ''BSL-1.0'')])]]),
                        (''purl'', JStr ''pkg:generic/boost@1.80.0'')]]),
           (''dependencies'',
              JArr [JObj [(''ref'', JStr ''App''), (''dependsOn'', JArr [JStr ''zlib'', JStr ''boost''])],
                    JObj [(''ref'', JStr ''zlib''), (''dependsOn'', JArr [])],
                    JObj [(''ref'', JStr ''boost''), (''dependsOn'', JArr [JStr ''boost_1_80''])],
                    JObj [(''ref'', JStr ''boost_1_80''), (''dependsOn'', JArr [])]])]"

definition example_merged :: json where
  "example_merged =
     JObj [(''bomFormat'', JStr ''CycloneDX''),
           (''specVersion'', JStr ''1.6''),
           (''version'', JInt 1),
           (''metadata'',
              JObj [(''timestamp'', JStr ''2025-01-01T00:00:00+00:00''),
                    (''tools'', JArr [JObj [(''name'', JStr ''Waf SBOM Command''),
                                            (''version'', JStr ''1.0.0'')]])]),
           (''components'',
              JArr [JObj [(''bom-ref'', JStr ''App''), (''type'', JStr ''application''),
                        (''name'', JStr ''App''), (''version'', JStr ''2.5.0''),
                        (''licenses'', JArr [JObj [(''license'', JObj [(''name'', JStr ''Your Organization Proprietary'')])]])],
                  JObj [(''bom-ref'', JStr ''zlib''), (''type'', JStr ''library''),
                        (''name'', JStr ''zlib''), (''version'', JStr ''Unknown''),
                        (''licenses'', JArr [JObj [(''license'', JObj [(''name'', JStr ''Unknown Third-Party License'')])]]),
                        (''purl'', JStr ''pkg:generic/zlib@Unknown'')],
                  JObj [(''bom-ref'', JStr ''boost''), (''type'', JStr ''library''),
                        (''name'', JStr ''boost''), (''version'', JStr ''1.80.0''),
                        (''licenses'', JArr [JObj [(''license'', JObj [(''name'', JStr ''BSL-1.0'')])]]),
                        (''purl'', JStr ''pkg:generic/boost@1.80.0'')],
                  JObj [(''bom-ref'', JStr ''boost_1_80''), (''type'', JStr ''library''),
                        (''name'', JStr ''boost_1_80''), (''version'', JStr ''1.80.0''),
                        (''licenses'', JArr [JObj [(''license'', JObj [(''name'', JStr ''BSL-1.0'')])]]),
                        (''purl'', JStr ''pkg:generic/boost@1.80.0'')],
                  JObj [(''bom-ref'', JStr ''pkgA''), (''type'', JStr ''library''), (''name'', JStr ''pkgA'')]]),
           (''dependencies'',
              JArr [JObj [(''ref'', JStr ''App''), (''dependsOn'', JArr [JStr ''zlib'', JStr ''boost''])],
                    JObj [(''ref'', JStr ''zlib''), (''dependsOn'', JArr [JStr ''pkgA''])],
                    JObj [(''ref'', JStr ''boost''), (''dependsOn'', JArr [JStr ''boost_1_80''])],
                    JObj [(''ref'', JStr ''boost_1_80''), (''dependsOn'', JArr [])]])]"

text \<open>
  A write that fails after the file was opened for writing, for instance on a full disk:
  the open has truncated the file, which then holds text that is not a JSON document.
\<close>

definition truncating_write :: write_operation where
  "truncating_write n j = (n\<lparr>content := NotJson\<rparr>, Some (OSError ''No space left on device''))"

section \<open>Properties of the Project Metadata Resolver\<close>

text \<open>The fields of the example graphs, for evaluation.\<close>

lemma example_context_simps [simp]:
  "Name example_context p =
     (case p of App \<Rightarrow> ''App'' | Zlib \<Rightarrow> ''zlib'' | Boost \<Rightarrow> ''boost''
      | Boost_1_80 \<Rightarrow> ''boost_1_80'' | Foo \<Rightarrow> ''foo'' | Foo_2 \<Rightarrow> ''foo_2'')"
  "Repr example_context p = ''<Project>''"
  "TaskGenerator example_context p =
     (case p of
        Boost_1_80 \<Rightarrow> \<lparr> version_number = Some ''1.80.0'', license_name = Some ''BSL-1.0'',
                        sbom_package_url = Some ''pkg:generic/boost@1.80.0'', sbom_unique_id = None \<rparr>
      | Foo_2 \<Rightarrow> \<lparr> version_number = Some ''2.0'', license_name = Some ''MIT'',
                   sbom_package_url = None, sbom_unique_id = None \<rparr>
      | _ \<Rightarrow> no_metadata)"
  "IsThirdParty example_context p = (p \<noteq> App)"
  "IsLibrary example_context p = (p \<noteq> App)"
  "IsDefaultVersionProject example_context p = (p = Boost \<or> p = Foo)"
  "GetAllDependencies example_context p =
     (case p of App \<Rightarrow> [Zlib, Boost, Boost_1_80] | Boost \<Rightarrow> [Boost_1_80] | Foo \<Rightarrow> [Foo_2] | _ \<Rightarrow> [])"
  "GetImmediateDependencies example_context p =
     (case p of App \<Rightarrow> [Zlib, Boost] | Boost \<Rightarrow> [Boost_1_80] | Foo \<Rightarrow> [Foo_2] | _ \<Rightarrow> [])"
  "product_version example_context = ''2.5.0''"
  "sbom_document_version example_context = 1"
  by (simp_all add: example_context_def)

lemma colliding_context_simps [simp]:
  "Name colliding_context p = Name example_context p"
  "Repr colliding_context p = ''<Project>''"
  "TaskGenerator colliding_context p =
     (case p of Zlib \<Rightarrow> no_metadata \<lparr> sbom_unique_id := Some ''boost_1_80'' \<rparr>
      | _ \<Rightarrow> TaskGenerator example_context p)"
  "IsThirdParty colliding_context p = (p \<noteq> App)"
  "IsLibrary colliding_context p = (p \<noteq> App)"
  "IsDefaultVersionProject colliding_context p = (p = Boost \<or> p = Foo)"
  "GetAllDependencies colliding_context p = GetAllDependencies example_context p"
  "GetImmediateDependencies colliding_context p = GetImmediateDependencies example_context p"
  "product_version colliding_context = ''2.5.0''"
  by (simp_all add: colliding_context_def example_context_def)

lemma no_metadata_simps [simp]:
  "version_number no_metadata = None"
  "license_name no_metadata = None"
  "sbom_package_url no_metadata = None"
  "sbom_unique_id no_metadata = None"
  by (simp_all add: no_metadata_def)

text \<open>
  C5. When the resolver returns (the lines 403-408 found the referenced project of a
  default version project, or the project is not one) it returns a component such that:
  for a third-party project with no version of its own and none inherited, the version is
  \<^verbatim>\<open>Unknown\<close> and the version warning is logged; for a third-party project with no
  license name of its own and none inherited, the license name is
  \<^verbatim>\<open>Unknown Third-Party License\<close> and the license warning is logged; for a first-party
  project the missing version is the configured product version, the missing license name
  is the fixed proprietary license string, and nothing at all is logged.
\<close>

theorem C5_placeholder_metadata:
  assumes "inherited_version_project_of ctx project = Inr (inherited, rest)"
  shows "\<exists>r. GetSbomComponentJsonObject ctx project = Inr r \<and>
     (IsThirdParty ctx project \<and> attribute_or_inherited ctx version_number project inherited = None \<longrightarrow>
        py_getitem (component r) ''version'' = Inr (JStr ''Unknown'') \<and>
        Warn (version_warning (Name ctx project)) \<in> set (warnings r)) \<and>
     (IsThirdParty ctx project \<and> attribute_or_inherited ctx license_name project inherited = None \<longrightarrow>
        py_getitem (component r) ''licenses'' =
          Inr (JArr [JObj [(''license'', JObj [(''name'', JStr ''Unknown Third-Party License'')])]]) \<and>
        Warn (license_warning (Name ctx project)) \<in> set (warnings r)) \<and>
     (\<not> IsThirdParty ctx project \<and> attribute_or_inherited ctx version_number project inherited = None \<longrightarrow>
        py_getitem (component r) ''version'' = Inr (JStr (product_version ctx))) \<and>
     (\<not> IsThirdParty ctx project \<and> attribute_or_inherited ctx license_name project inherited = None \<longrightarrow>
        py_getitem (component r) ''licenses'' =
          Inr (JArr [JObj [(''license'', JObj [(''name'', JStr ''Your Organization Proprietary'')])]])) \<and>
     (\<not> IsThirdParty ctx project \<longrightarrow> warnings r = [])"
  using assms
  by (simp add: GetSbomComponentJsonObject_def py_getitem_def Let_def split: option.splits)

text \<open>Witness for C5: the third-party library \<open>Zlib\<close> and the first-party application \<open>App\<close>.\<close>

theorem C5_placeholder_metadata_witness:
  "(\<exists>r. GetSbomComponentJsonObject example_context Zlib = Inr r \<and>
        py_getitem (component r) ''version'' = Inr (JStr ''Unknown'') \<and>
        Warn (version_warning ''zlib'') \<in> set (warnings r) \<and>
        py_getitem (component r) ''licenses'' =
          Inr (JArr [JObj [(''license'', JObj [(''name'', JStr ''Unknown Third-Party License'')])]]) \<and>
        Warn (license_warning ''zlib'') \<in> set (warnings r)) \<and>
   (\<exists>r. GetSbomComponentJsonObject example_context App = Inr r \<and>
        py_getitem (component r) ''version'' = Inr (JStr ''2.5.0'') \<and>
        py_getitem (component r) ''licenses'' =
          Inr (JArr [JObj [(''license'', JObj [(''name'', JStr ''Your Organization Proprietary'')])]]) \<and>
        warnings r = [])"
  using C5_placeholder_metadata [of example_context Zlib None None]
        C5_placeholder_metadata [of example_context App None None]
  by (simp add: inherited_version_project_of_def attribute_or_inherited_def)

text \<open>
  C6, amended. The package URL is synthesized exactly when the project is third-party and
  has no package URL of its own and none inherited; the synthesized value is
  \<^verbatim>\<open>pkg:generic/<name>@<version>\<close>, from the project's name and the version of the
  component, and the PURL warning is logged. A package URL that is provided or inherited
  is used as it is, without the warning. A first-party project without a package URL
  gets a component that has no \<^verbatim>\<open>purl\<close> key. In no case is the \<^verbatim>\<open>purl\<close> value null.
\<close>

theorem C6_package_url:
  assumes "inherited_version_project_of ctx project = Inr (inherited, rest)"
  shows "\<exists>r version. GetSbomComponentJsonObject ctx project = Inr r \<and>
     py_getitem (component r) ''version'' = Inr (JStr version) \<and>
     (IsThirdParty ctx project \<and> attribute_or_inherited ctx sbom_package_url project inherited = None \<longrightarrow>
        py_getitem (component r) ''purl'' = Inr (JStr (''pkg:generic/'' @ Name ctx project @ ''@'' @ version)) \<and>
        Warn (purl_warning (Name ctx project)) \<in> set (warnings r)) \<and>
     (\<forall>u. attribute_or_inherited ctx sbom_package_url project inherited = Some u \<longrightarrow>
        py_getitem (component r) ''purl'' = Inr (JStr u) \<and>
        Warn (purl_warning (Name ctx project)) \<notin> set (warnings r)) \<and>
     (\<not> IsThirdParty ctx project \<and> attribute_or_inherited ctx sbom_package_url project inherited = None \<longrightarrow>
        py_getitem (component r) ''purl'' = Inl (KeyError (py_repr ''purl''))) \<and>
     py_getitem (component r) ''purl'' \<noteq> Inr JNull"
  using assms
  by (auto simp add: GetSbomComponentJsonObject_def py_getitem_def Let_def
        version_warning_def license_warning_def purl_warning_def split: option.splits)

text \<open>Witness for C6: \<open>Zlib\<close> (synthesized), \<open>Boost_1_80\<close> (provided), \<open>App\<close> (omitted).\<close>

theorem C6_package_url_witness:
  "(\<exists>r version. GetSbomComponentJsonObject example_context Zlib = Inr r \<and>
        py_getitem (component r) ''version'' = Inr (JStr version) \<and>
        py_getitem (component r) ''purl'' = Inr (JStr (''pkg:generic/zlib@'' @ version)) \<and>
        Warn (purl_warning ''zlib'') \<in> set (warnings r)) \<and>
   (\<exists>r. GetSbomComponentJsonObject example_context Boost_1_80 = Inr r \<and>
        py_getitem (component r) ''purl'' = Inr (JStr ''pkg:generic/boost@1.80.0'')) \<and>
   (\<exists>r. GetSbomComponentJsonObject example_context App = Inr r \<and>
        py_getitem (component r) ''purl'' = Inl (KeyError (py_repr ''purl'')))"
proof -
  have h: "inherited_version_project_of example_context p = Inr (None, None)"
    if "p \<noteq> Boost" "p \<noteq> Foo" for p
    using that by (simp add: inherited_version_project_of_def)
  have z: "IsThirdParty example_context Zlib"
       "attribute_or_inherited example_context sbom_package_url Zlib None = None"
       "Name example_context Zlib = ''zlib''"
    by (simp_all add: attribute_or_inherited_def)
  have b: "attribute_or_inherited example_context sbom_package_url Boost_1_80 None =
             Some ''pkg:generic/boost@1.80.0''"
    by (simp add: attribute_or_inherited_def)
  have a: "\<not> IsThirdParty example_context App"
       "attribute_or_inherited example_context sbom_package_url App None = None"
    by (simp_all add: attribute_or_inherited_def)
  from C6_package_url [OF h [of Zlib]] z
  have "\<exists>r version. GetSbomComponentJsonObject example_context Zlib = Inr r \<and>
        py_getitem (component r) ''version'' = Inr (JStr version) \<and>
        py_getitem (component r) ''purl'' = Inr (JStr (''pkg:generic/zlib@'' @ version)) \<and>
        Warn (purl_warning ''zlib'') \<in> set (warnings r)"
    by fastforce
  moreover from C6_package_url [OF h [of Boost_1_80]] b
  have "\<exists>r. GetSbomComponentJsonObject example_context Boost_1_80 = Inr r \<and>
        py_getitem (component r) ''purl'' = Inr (JStr ''pkg:generic/boost@1.80.0'')"
    by fastforce
  moreover from C6_package_url [OF h [of App]] a
  have "\<exists>r. GetSbomComponentJsonObject example_context App = Inr r \<and>
        py_getitem (component r) ''purl'' = Inl (KeyError (py_repr ''purl''))"
    by fastforce
  ultimately show ?thesis by blast
qed

text \<open>
  C6 as stated fails: for the third-party project \<open>Zlib\<close>, without version and package URL,
  the package URL of the component is \<^verbatim>\<open>pkg:generic/zlib@Unknown\<close>, which is not the
  string \<^verbatim>\<open>generic/zlib@Unknown\<close>.
\<close>

theorem C6_package_url_counterexample:
  "\<exists>r. GetSbomComponentJsonObject example_context Zlib = Inr r \<and>
       IsThirdParty example_context Zlib \<and>
       sbom_package_url (TaskGenerator example_context Zlib) = None \<and>
       \<not> IsDefaultVersionProject example_context Zlib \<and>
       py_getitem (component r) ''version'' = Inr (JStr ''Unknown'') \<and>
       py_getitem (component r) ''purl'' = Inr (JStr ''pkg:generic/zlib@Unknown'') \<and>
       py_getitem (component r) ''purl'' \<noteq>
         Inr (JStr (''generic/'' @ Name example_context Zlib @ ''@'' @ ''Unknown''))"
  by (simp add: GetSbomComponentJsonObject_def inherited_version_project_of_def
        attribute_or_inherited_def py_getitem_def)

text \<open>
  C7, amended. A default version project \<open>d\<close> that refers to exactly one project \<open>p\<close>, has
  no version, license name or package URL of its own, and whose referenced project \<open>p\<close>
  has all three, resolves to a component whose version, license name and package URL are
  those of \<open>p\<close>, with no warning; they are also those of the component that \<open>p\<close>
  itself resolves to.
\<close>

theorem C7_default_version_inherits:
  assumes "IsDefaultVersionProject ctx d"
      and "GetImmediateDependencies ctx d = [p]"
      and "version_number (TaskGenerator ctx d) = None"
      and "license_name (TaskGenerator ctx d) = None"
      and "sbom_package_url (TaskGenerator ctx d) = None"
      and "version_number (TaskGenerator ctx p) = Some v"
      and "license_name (TaskGenerator ctx p) = Some l"
      and "sbom_package_url (TaskGenerator ctx p) = Some u"
  shows "\<exists>r. GetSbomComponentJsonObject ctx d = Inr r \<and>
     py_getitem (component r) ''version'' = Inr (JStr v) \<and>
     py_getitem (component r) ''licenses'' = Inr (JArr [JObj [(''license'', JObj [(''name'', JStr l)])]]) \<and>
     py_getitem (component r) ''purl'' = Inr (JStr u) \<and>
     warnings r = [] \<and>
     (\<forall>rp. GetSbomComponentJsonObject ctx p = Inr rp \<longrightarrow>
        py_getitem (component r) ''version'' = py_getitem (component rp) ''version'' \<and>
        py_getitem (component r) ''licenses'' = py_getitem (component rp) ''licenses'' \<and>
        py_getitem (component r) ''purl'' = py_getitem (component rp) ''purl'')"
  using assms
  by (auto simp add: GetSbomComponentJsonObject_def inherited_version_project_of_def set_pop_def
        attribute_or_inherited_def py_getitem_def Let_def split: option.splits sum.splits if_splits)

text \<open>Witness for C7: \<open>Boost\<close> refers to \<open>Boost_1_80\<close>.\<close>

theorem C7_default_version_inherits_witness:
  "\<exists>r rp. GetSbomComponentJsonObject example_context Boost = Inr r \<and>
     GetSbomComponentJsonObject example_context Boost_1_80 = Inr rp \<and>
     py_getitem (component r) ''version'' = Inr (JStr ''1.80.0'') \<and>
     py_getitem (component r) ''licenses'' = Inr (JArr [JObj [(''license'', JObj [(''name'', JStr ''BSL-1.0'')])]]) \<and>
     py_getitem (component r) ''purl'' = Inr (JStr ''pkg:generic/boost@1.80.0'') \<and>
     py_getitem (component r) ''version'' = py_getitem (component rp) ''version'' \<and>
     py_getitem (component r) ''licenses'' = py_getitem (component rp) ''licenses'' \<and>
     py_getitem (component r) ''purl'' = py_getitem (component rp) ''purl''"
proof -
  obtain rp where rp: "GetSbomComponentJsonObject example_context Boost_1_80 = Inr rp"
    by (simp add: GetSbomComponentJsonObject_def inherited_version_project_of_def
          attribute_or_inherited_def)
  from C7_default_version_inherits
         [of example_context Boost Boost_1_80 "''1.80.0''" "''BSL-1.0''" "''pkg:generic/boost@1.80.0''"]
  obtain r where "GetSbomComponentJsonObject example_context Boost = Inr r"
     "py_getitem (component r) ''version'' = Inr (JStr ''1.80.0'')"
     "py_getitem (component r) ''licenses'' = Inr (JArr [JObj [(''license'', JObj [(''name'', JStr ''BSL-1.0'')])]])"
     "py_getitem (component r) ''purl'' = Inr (JStr ''pkg:generic/boost@1.80.0'')"
     "\<forall>rp. GetSbomComponentJsonObject example_context Boost_1_80 = Inr rp \<longrightarrow>
        py_getitem (component r) ''version'' = py_getitem (component rp) ''version'' \<and>
        py_getitem (component r) ''licenses'' = py_getitem (component rp) ''licenses'' \<and>
        py_getitem (component r) ''purl'' = py_getitem (component rp) ''purl''"
    by auto
  with rp show ?thesis by blast
qed

text \<open>
  C7 as stated fails when the referenced project lacks an attribute: \<open>Foo\<close> is a default
  version project with no metadata of its own that refers to exactly \<open>Foo_2\<close>, which has
  no package URL. The component of \<open>Foo\<close> gets a package URL synthesized from its own
  name, which is neither the (missing) package URL of \<open>Foo_2\<close> nor the package URL of the
  component of \<open>Foo_2\<close>.
\<close>

theorem C7_default_version_inherits_counterexample:
  "\<exists>r rp. IsDefaultVersionProject example_context Foo \<and>
     GetImmediateDependencies example_context Foo = [Foo_2] \<and>
     version_number (TaskGenerator example_context Foo) = None \<and>
     license_name (TaskGenerator example_context Foo) = None \<and>
     sbom_package_url (TaskGenerator example_context Foo) = None \<and>
     GetSbomComponentJsonObject example_context Foo = Inr r \<and>
     GetSbomComponentJsonObject example_context Foo_2 = Inr rp \<and>
     py_getitem (component r) ''purl'' = Inr (JStr ''pkg:generic/foo@2.0'') \<and>
     py_getitem (component rp) ''purl'' = Inr (JStr ''pkg:generic/foo_2@2.0'') \<and>
     sbom_package_url (TaskGenerator example_context Foo_2) = None"
  by (simp add: GetSbomComponentJsonObject_def inherited_version_project_of_def set_pop_def
        attribute_or_inherited_def py_getitem_def)

text \<open>
  C9 fails on the code. Resolving the default version project \<open>Boost\<close> obtains the set
  \<open>{Boost_1_80}\<close> from \<^verbatim>\<open>GetImmediateDependencies\<close> and calls \<^verbatim>\<open>pop()\<close> on it: when the
  resolver returns, the set object that the graph handed out is empty.
\<close>

theorem C9_pop_empties_returned_set:
  "\<exists>r. IsDefaultVersionProject example_context Boost \<and>
       GetImmediateDependencies example_context Boost = [Boost_1_80] \<and>
       GetSbomComponentJsonObject example_context Boost = Inr r \<and>
       immediate_dependencies_after r = Some []"
  by (simp add: GetSbomComponentJsonObject_def inherited_version_project_of_def set_pop_def
        attribute_or_inherited_def)

section \<open>Properties of the Component Graph Builder\<close>


text \<open>
  When the loop returns, the lookup has grown by one entry per component added, with the
  component's unique id; ids and projects stay distinct; every project of the list is a
  key of the lookup.
\<close>

lemma components_loop_success:
  "components_loop ctx ps (objs, lk, lg) = Inr (objs', lk', lg') \<Longrightarrow>
   \<exists>new. lk' = lk @ new \<and>
         map bom_ref objs' = map bom_ref objs @ map (\<lambda>e. Inr (snd e)) new \<and>
         (distinct (map snd lk) \<longrightarrow> distinct (map snd lk')) \<and>
         (distinct (map fst lk) \<longrightarrow> distinct (map fst lk')) \<and>
         fst ` set lk' = fst ` set lk \<union> set ps \<and>
         (\<forall>e \<in> set new. fst e \<in> set ps \<and>
            (\<exists>r. GetSbomComponentJsonObject ctx (fst e) = Inr r \<and> bom_ref (component r) = Inr (snd e)))"
proof (induction ps arbitrary: objs lk lg)
  case Nil
  then show ?case by simp
next
  case (Cons p ps)
  show ?case
  proof (cases "map_of lk p \<noteq> None")
    case True
    with Cons.prems have "components_loop ctx ps (objs, lk, lg) = Inr (objs', lk', lg')" by simp
    from Cons.IH [OF this] obtain new where n: "lk' = lk @ new"
      "map bom_ref objs' = map bom_ref objs @ map (\<lambda>e. Inr (snd e)) new"
      "distinct (map snd lk) \<longrightarrow> distinct (map snd lk')"
      "distinct (map fst lk) \<longrightarrow> distinct (map fst lk')"
      "fst ` set lk' = fst ` set lk \<union> set ps"
      "\<forall>e \<in> set new. fst e \<in> set ps \<and>
            (\<exists>r. GetSbomComponentJsonObject ctx (fst e) = Inr r \<and> bom_ref (component r) = Inr (snd e))"
      by blast
    from True have "p \<in> fst ` set lk" by (metis map_of_eq_None_iff)
    with n show ?thesis by (intro exI [of _ new]) auto
  next
    case False
    with Cons.prems obtain r i where r: "GetSbomComponentJsonObject ctx p = Inr r"
      and i: "bom_ref (component r) = Inr i" and fresh: "i \<notin> set (map snd lk)"
      and rec: "components_loop ctx ps (objs @ [component r], lk @ [(p, i)], lg @ warnings r) = Inr (objs', lk', lg')"
      by (auto split: sum.splits if_splits)
    from Cons.IH [OF rec] obtain new where n: "lk' = (lk @ [(p, i)]) @ new"
      "map bom_ref objs' = map bom_ref (objs @ [component r]) @ map (\<lambda>e. Inr (snd e)) new"
      "distinct (map snd (lk @ [(p, i)])) \<longrightarrow> distinct (map snd lk')"
      "distinct (map fst (lk @ [(p, i)])) \<longrightarrow> distinct (map fst lk')"
      "fst ` set lk' = fst ` set (lk @ [(p, i)]) \<union> set ps"
      "\<forall>e \<in> set new. fst e \<in> set ps \<and>
            (\<exists>r. GetSbomComponentJsonObject ctx (fst e) = Inr r \<and> bom_ref (component r) = Inr (snd e))"
      by blast
    from False have pf: "p \<notin> fst ` set lk" by (simp add: map_of_eq_None_iff)
    show ?thesis
    proof (intro exI [of _ "(p, i) # new"] conjI)
      show "lk' = lk @ (p, i) # new" using n(1) by simp
      show "map bom_ref objs' = map bom_ref objs @ map (\<lambda>e. Inr (snd e)) ((p, i) # new)"
        using n(2) i by simp
      show "distinct (map snd lk) \<longrightarrow> distinct (map snd lk')" using n(3) fresh by simp
      show "distinct (map fst lk) \<longrightarrow> distinct (map fst lk')" using n(4) pf by simp
      show "fst ` set lk' = fst ` set lk \<union> set (p # ps)" using n(5) by auto
      show "\<forall>e \<in> set ((p, i) # new). fst e \<in> set (p # ps) \<and>
            (\<exists>r. GetSbomComponentJsonObject ctx (fst e) = Inr r \<and> bom_ref (component r) = Inr (snd e))"
        using n(6) r i by auto
    qed
  qed
qed




text \<open>The components of the example graphs.\<close>

lemma example_components:
  "GetSbomComponentJsonObject example_context App =
     Inr \<lparr> component = JObj [(''bom-ref'', JStr ''App''), (''type'', JStr ''application''),
               (''name'', JStr ''App''), (''version'', JStr ''2.5.0''),
               (''licenses'', JArr [JObj [(''license'', JObj [(''name'', JStr ''Your Organization Proprietary'')])]])],
           warnings = [], immediate_dependencies_after = None \<rparr>"
  "GetSbomComponentJsonObject example_context Zlib =
     Inr \<lparr> component = JObj [(''bom-ref'', JStr ''zlib''), (''type'', JStr ''library''),
               (''name'', JStr ''zlib''), (''version'', JStr ''Unknown''),
               (''licenses'', JArr [JObj [(''license'', JObj [(''name'', JStr ''Unknown Third-Party License'')])]]),
               (''purl'', JStr ''pkg:generic/zlib@Unknown'')],
           warnings = [Warn (version_warning ''zlib''), Warn (license_warning ''zlib''), Warn (purl_warning ''zlib'')],
           immediate_dependencies_after = None \<rparr>"
  "GetSbomComponentJsonObject example_context Boost =
     Inr \<lparr> component = JObj [(''bom-ref'', JStr ''boost''), (''type'', JStr ''library''),
               (''name'', JStr ''boost''), (''version'', JStr ''1.80.0''),
               (''licenses'', JArr [JObj [(''license'', JObj [(''name'', JStr ''BSL-1.0'')])]]),
               (''purl'', JStr ''pkg:generic/boost@1.80.0'')],
           warnings = [], immediate_dependencies_after = Some [] \<rparr>"
  "GetSbomComponentJsonObject example_context Boost_1_80 =
     Inr \<lparr> component = JObj [(''bom-ref'', JStr ''boost_1_80''), (''type'', JStr ''library''),
               (''name'', JStr ''boost_1_80''), (''version'', JStr ''1.80.0''),
               (''licenses'', JArr [JObj [(''license'', JObj [(''name'', JStr ''BSL-1.0'')])]]),
               (''purl'', JStr ''pkg:generic/boost@1.80.0'')],
           warnings = [], immediate_dependencies_after = None \<rparr>"
  by (simp_all add: GetSbomComponentJsonObject_def inherited_version_project_of_def set_pop_def
        attribute_or_inherited_def)

lemma example_component_list:
  "GetSbomComponentJsonObjectsForProjectAndDependencies example_context App [] =
     Inr ([JObj [(''bom-ref'', JStr ''App''), (''type'', JStr ''application''),
               (''name'', JStr ''App''), (''version'', JStr ''2.5.0''),
               (''licenses'', JArr [JObj [(''license'', JObj [(''name'', JStr ''Your Organization Proprietary'')])]])],
           JObj [(''bom-ref'', JStr ''zlib''), (''type'', JStr ''library''),
               (''name'', JStr ''zlib''), (''version'', JStr ''Unknown''),
               (''licenses'', JArr [JObj [(''license'', JObj [(''name'', JStr ''Unknown Third-Party License'')])]]),
               (''purl'', JStr ''pkg:generic/zlib@Unknown'')],
           JObj [(''bom-ref'', JStr ''boost''), (''type'', JStr ''library''),
               (''name'', JStr ''boost''), (''version'', JStr ''1.80.0''),
               (''licenses'', JArr [JObj [(''license'', JObj [(''name'', JStr ''BSL-1.0'')])]]),
               (''purl'', JStr ''pkg:generic/boost@1.80.0'')],
           JObj [(''bom-ref'', JStr ''boost_1_80''), (''type'', JStr ''library''),
               (''name'', JStr ''boost_1_80''), (''version'', JStr ''1.80.0''),
               (''licenses'', JArr [JObj [(''license'', JObj [(''name'', JStr ''BSL-1.0'')])]]),
               (''purl'', JStr ''pkg:generic/boost@1.80.0'')]],
          [(App, ''App''), (Zlib, ''zlib''), (Boost, ''boost''), (Boost_1_80, ''boost_1_80'')],
          [Warn (version_warning ''zlib''), Warn (license_warning ''zlib''), Warn (purl_warning ''zlib'')])"
  by (simp add: GetSbomComponentJsonObjectsForProjectAndDependencies_def example_components
        bom_ref_def py_getitem_def)



section \<open>Properties of the Dependency Edge Builder and the Document Assembler\<close>

lemma bom_ref_getitem: "bom_ref c = Inr i \<Longrightarrow> py_getitem c ''bom-ref'' = Inr (JStr i)"
  by (auto simp add: bom_ref_def split: sum.splits json.splits)

lemma dependencies_loop_refs:
  "dependencies_loop ctx lookup es = Inr ds \<Longrightarrow>
   map (\<lambda>d. py_getitem d ''ref'') ds = map (\<lambda>e. Inr (JStr (snd e))) es"
  by (induction es arbitrary: ds) (auto simp add: py_getitem_def split: sum.splits)

text \<open>
  The initially assembled document has one dependency entry per component, in the same
  order and with the same unique ids, and the unique ids are pairwise distinct.
\<close>

lemma initial_document_one_entry_per_component:
  assumes "GenerateInitialCustomSoftwareSbom ctx timestamp target_project [] = Inr (doc, lk, lg)"
  shows "\<exists>objs deps. py_getitem doc ''components'' = Inr (JArr objs) \<and>
           py_getitem doc ''dependencies'' = Inr (JArr deps) \<and>
           map (\<lambda>c. py_getitem c ''bom-ref'') objs = map (\<lambda>d. py_getitem d ''ref'') deps \<and>
           distinct (map (\<lambda>c. py_getitem c ''bom-ref'') objs)"
proof -
  from assms obtain objs deps where
    c: "GetSbomComponentJsonObjectsForProjectAndDependencies ctx target_project [] = Inr (objs, lk, lg)"
    and d: "GetSbomDependencyJsonObjects ctx lk = Inr deps"
    and doc: "py_getitem doc ''components'' = Inr (JArr objs)" "py_getitem doc ''dependencies'' = Inr (JArr deps)"
    by (auto simp add: GenerateInitialCustomSoftwareSbom_def py_getitem_def split: sum.splits prod.splits)
  from c have "components_loop ctx (List.insert target_project (remdups (GetAllDependencies ctx target_project)))
                 ([], [], []) = Inr (objs, lk, lg)"
    by (simp add: GetSbomComponentJsonObjectsForProjectAndDependencies_def)
  from components_loop_success [OF this]
  have b: "map bom_ref objs = map (\<lambda>e. Inr (snd e)) lk" and dist: "distinct (map snd lk)" by auto
  have "length objs = length lk" using b by (metis length_map)
  then have g: "map (\<lambda>c. py_getitem c ''bom-ref'') objs = map (\<lambda>e. Inr (JStr (snd e))) lk"
    using b
  proof (induction objs lk rule: list_induct2)
    case Nil
    then show ?case by simp
  next
    case (Cons x xs y ys)
    then show ?case by (simp add: bom_ref_getitem)
  qed
  have r: "map (\<lambda>d. py_getitem d ''ref'') deps = map (\<lambda>e. Inr (JStr (snd e))) lk"
    using d dependencies_loop_refs by (simp add: GetSbomDependencyJsonObjects_def)
  have "distinct (map (\<lambda>e. (Inr (JStr (snd e)) :: error + json)) lk)"
    using dist by (simp add: distinct_map inj_on_def)
  with g r doc show ?thesis by (intro exI [of _ objs] exI [of _ deps]) simp
qed

text \<open>The initial document of the example graph.\<close>

lemma example_initial_document:
  "GenerateInitialCustomSoftwareSbom example_context ''2025-01-01T00:00:00+00:00'' App [] =
     Inr (example_initial, example_lookup,
          [Warn (version_warning ''zlib''), Warn (license_warning ''zlib''), Warn (purl_warning ''zlib'')])"
  by (simp add: GenerateInitialCustomSoftwareSbom_def example_component_list
        GetSbomDependencyJsonObjects_def lookup_project_def COMMAND_NAME_def COMMAND_VERSION_def
        example_initial_def example_lookup_def)

text \<open>The function unfolded down to its block, for evaluation.\<close>

lemmas merge_unfold =
  MergeDependencyMetadataSbomIntoCustomSoftwareSbom_def
  MergeDependencyMetadataSbomIntoCustomSoftwareSbom_with_def
  merge_try_block_def merge_try_block_with_def

text \<open>The merge of the example dependency metadata for \<open>Zlib\<close> into the initial document.\<close>

lemma example_merge:
  "MergeDependencyMetadataSbomIntoCustomSoftwareSbom example_context Zlib example_lookup
       \<lparr> content = Json example_fragment, writable = False \<rparr>
       \<lparr> content = Json example_initial, writable = True \<rparr> =
     (True, [Info (merge_info ''zlib'')], \<lparr> content = Json example_merged, writable = True \<rparr>)"
  by (simp add: merge_unfold merge_components_and_dependencies_def read_json_def write_json_def
        example_fragment_def example_initial_def example_merged_def example_lookup_def
        py_getitem_def py_setitem_def py_iter_def py_hash_def py_key_def
        py_append_def py_contains_def lookup_project_def)

text \<open>
  C2 fails on the code after a merge. The initial document of the example graph has one
  dependency entry per component. Merging the example dependency metadata for \<open>Zlib\<close>
  appends the component \<^verbatim>\<open>pkgA\<close> and appends its unique id to the \<^verbatim>\<open>dependsOn\<close> of \<open>Zlib\<close>,
  but adds no dependency entry for \<^verbatim>\<open>pkgA\<close>: the merged document has five components and
  four dependency entries.
\<close>

theorem C2_merge_adds_component_without_dependency_entry:
  "\<exists>doc lookup lg merged cs ds.
     GenerateInitialCustomSoftwareSbom example_context ''2025-01-01T00:00:00+00:00'' App [] =
       Inr (doc, lookup, lg) \<and>
     MergeDependencyMetadataSbomIntoCustomSoftwareSbom example_context Zlib lookup
         \<lparr> content = Json example_fragment, writable = False \<rparr>
         \<lparr> content = Json doc, writable = True \<rparr> =
       (True, [Info (merge_info ''zlib'')], \<lparr> content = Json merged, writable = True \<rparr>) \<and>
     py_getitem merged ''components'' = Inr (JArr cs) \<and>
     map (\<lambda>c. py_getitem c ''bom-ref'') cs =
       [Inr (JStr ''App''), Inr (JStr ''zlib''), Inr (JStr ''boost''), Inr (JStr ''boost_1_80''),
        Inr (JStr ''pkgA'')] \<and>
     py_getitem merged ''dependencies'' = Inr (JArr ds) \<and>
     map (\<lambda>d. py_getitem d ''ref'') ds =
       [Inr (JStr ''App''), Inr (JStr ''zlib''), Inr (JStr ''boost''), Inr (JStr ''boost_1_80'')] \<and>
     map (\<lambda>d. py_getitem d ''dependsOn'') ds =
       [Inr (JArr [JStr ''zlib'', JStr ''boost'']), Inr (JArr [JStr ''pkgA'']),
        Inr (JArr [JStr ''boost_1_80'']), Inr (JArr [])]"
  by (simp add: example_initial_document example_merge)
     (simp add: example_merged_def py_getitem_def)

section \<open>Properties of the Fragment Merge Engine\<close>

subsection \<open>Dictionaries\<close>

lemma py_getitem_JObj: "py_getitem d k = Inr v \<Longrightarrow> \<exists>kvs. d = JObj kvs \<and> map_of kvs k = Some v"
  by (auto simp add: py_getitem_def split: json.splits option.splits)

lemma py_getitem_setitem_other:
  "k \<noteq> k' \<Longrightarrow> py_getitem (py_setitem d k v) k' = py_getitem d k'"
  by (cases d) (simp_all add: py_getitem_def py_setitem_def update_conv')

lemma py_getitem_setitem_same:
  "py_getitem d k' = Inr x \<Longrightarrow> py_getitem (py_setitem d k v) k = Inr v"
  by (cases d) (simp_all add: py_getitem_def py_setitem_def update_conv')

lemma py_setitem_triv: "py_getitem d k = Inr v \<Longrightarrow> py_setitem d k v = d"
  by (cases d) (auto simp add: py_getitem_def py_setitem_def update_triv split: option.splits)

lemma py_append_JArr: "py_append v x = Inr v' \<Longrightarrow> \<exists>xs. v = JArr xs \<and> v' = JArr (xs @ [x])"
  by (cases v) (simp_all add: py_append_def)

lemma py_hash_JStr: "py_hash r = Inr (JStr s) \<Longrightarrow> r = JStr s"
  by (cases r) (simp_all add: py_hash_def py_key_def)

subsection \<open>The loops\<close>

lemma unique_ids_defined_append:
  "unique_ids_defined xs = Inr kx \<Longrightarrow> unique_ids_defined ys = Inr ky \<Longrightarrow>
   unique_ids_defined (xs @ ys) = Inr (kx @ ky)"
  by (induction xs arbitrary: kx) (auto split: sum.splits)

text \<open>
  What the loop over the dependency metadata does: it appends components \<open>new\<close> of the
  dependency metadata, none of them of type \<^verbatim>\<open>file\<close>, to the list of components, their
  keys to the set of unique ids and their unique ids to the list of added ids.
\<close>

lemma add_components_result:
  "add_components fs (c0, ids, acc) = Inr (c1, ids1, acc1) \<Longrightarrow>
   \<exists>new ks us.
     ids1 = ids @ ks \<and> acc1 = acc @ us \<and>
     (new = [] \<and> c1 = c0 \<or> (\<exists>xs. c0 = JArr xs \<and> c1 = JArr (xs @ new))) \<and>
     unique_ids_defined new = Inr ks \<and>
     map (\<lambda>c. py_getitem c ''bom-ref'') new = map Inr us \<and>
     (\<forall>c \<in> set new. c \<in> set fs \<and> py_getitem c ''type'' \<noteq> Inr (JStr ''file''))"
proof (induction fs arbitrary: c0 ids acc)
  case Nil
  then show ?case by auto
next
  case (Cons c fs)
  from Cons.prems obtain t where t: "py_getitem c ''type'' = Inr t"
    by (auto split: sum.splits)
  show ?case
  proof (cases "JStr ''file'' = t")
    case True
    with t Cons.prems have "add_components fs (c0, ids, acc) = Inr (c1, ids1, acc1)" by simp
    from Cons.IH [OF this] obtain new ks us where
      "ids1 = ids @ ks" "acc1 = acc @ us"
      "new = [] \<and> c1 = c0 \<or> (\<exists>xs. c0 = JArr xs \<and> c1 = JArr (xs @ new))"
      "unique_ids_defined new = Inr ks"
      "map (\<lambda>c. py_getitem c ''bom-ref'') new = map Inr us"
      "\<forall>c \<in> set new. c \<in> set fs \<and> py_getitem c ''type'' \<noteq> Inr (JStr ''file'')"
      by blast
    note n = this
      show ?thesis
        by (rule exI [of _ new], rule exI [of _ ks], rule exI [of _ us]) (use n in auto)
  next
    case False
    with t Cons.prems obtain u k where u: "py_getitem c ''bom-ref'' = Inr u" and k: "py_hash u = Inr k"
      by (auto split: sum.splits)
    show ?thesis
    proof (cases "k \<in> set ids")
      case True
      with t False u k Cons.prems have "add_components fs (c0, ids, acc) = Inr (c1, ids1, acc1)" by simp
      from Cons.IH [OF this] obtain new ks us where
        "ids1 = ids @ ks" "acc1 = acc @ us"
        "new = [] \<and> c1 = c0 \<or> (\<exists>xs. c0 = JArr xs \<and> c1 = JArr (xs @ new))"
        "unique_ids_defined new = Inr ks"
        "map (\<lambda>c. py_getitem c ''bom-ref'') new = map Inr us"
        "\<forall>c \<in> set new. c \<in> set fs \<and> py_getitem c ''type'' \<noteq> Inr (JStr ''file'')"
        by blast
      note n = this
      show ?thesis
        by (rule exI [of _ new], rule exI [of _ ks], rule exI [of _ us]) (use n in auto)
    next
      case nin: False
      with t False u k Cons.prems obtain c' where a: "py_append c0 c = Inr c'"
        and rec: "add_components fs (c', ids @ [k], acc @ [u]) = Inr (c1, ids1, acc1)"
        by (auto split: sum.splits)
      from py_append_JArr [OF a] obtain xs where xs: "c0 = JArr xs" "c' = JArr (xs @ [c])" by blast
      from Cons.IH [OF rec] obtain new ks us where n:
        "ids1 = (ids @ [k]) @ ks" "acc1 = (acc @ [u]) @ us"
        "new = [] \<and> c1 = c' \<or> (\<exists>ys. c' = JArr ys \<and> c1 = JArr (ys @ new))"
        "unique_ids_defined new = Inr ks"
        "map (\<lambda>c. py_getitem c ''bom-ref'') new = map Inr us"
        "\<forall>c \<in> set new. c \<in> set fs \<and> py_getitem c ''type'' \<noteq> Inr (JStr ''file'')"
        by blast
      from n(3) xs have c1: "c1 = JArr (xs @ c # new)" by auto
      show ?thesis
      proof (rule exI [of _ "c # new"], rule exI [of _ "k # ks"], rule exI [of _ "u # us"], intro conjI)
        show "ids1 = ids @ k # ks" using n(1) by simp
        show "acc1 = acc @ u # us" using n(2) by simp
        show "c # new = [] \<and> c1 = c0 \<or> (\<exists>ys. c0 = JArr ys \<and> c1 = JArr (ys @ c # new))"
          using xs c1 by simp
        show "unique_ids_defined (c # new) = Inr (k # ks)" using u k n(4) by simp
        show "map (\<lambda>c. py_getitem c ''bom-ref'') (c # new) = map Inr (u # us)" using u n(5) by simp
        show "\<forall>x \<in> set (c # new). x \<in> set (c # fs) \<and> py_getitem x ''type'' \<noteq> Inr (JStr ''file'')"
          using n(6) t False by auto
      qed
    qed
  qed
qed

text \<open>A second pass over the same dependency metadata, with all their keys defined, adds nothing.\<close>

lemma add_components_again:
  "add_components fs (c0, ids, acc) = Inr (c1, ids1, acc1) \<Longrightarrow> set ids1 \<subseteq> set S \<Longrightarrow>
   add_components fs (c, S, a) = Inr (c, S, a)"
proof (induction fs arbitrary: c0 ids acc)
  case Nil
  then show ?case by simp
next
  case (Cons x fs)
  from Cons.prems(1) obtain t where t: "py_getitem x ''type'' = Inr t"
    by (auto split: sum.splits)
  show ?case
  proof (cases "JStr ''file'' = t")
    case True
    with t Cons.prems have "add_components fs (c0, ids, acc) = Inr (c1, ids1, acc1)" by simp
    from Cons.IH [OF this Cons.prems(2)] t True show ?thesis by simp
  next
    case False
    with t Cons.prems obtain u k where u: "py_getitem x ''bom-ref'' = Inr u" and k: "py_hash u = Inr k"
      by (auto split: sum.splits)
    show ?thesis
    proof (cases "k \<in> set ids")
      case True
      with t False u k Cons.prems have r: "add_components fs (c0, ids, acc) = Inr (c1, ids1, acc1)" by simp
      from add_components_result [OF r] True Cons.prems(2) have "k \<in> set S" by auto
      with Cons.IH [OF r Cons.prems(2)] t False u k show ?thesis by simp
    next
      case nin: False
      with t False u k Cons.prems obtain c' where
        r: "add_components fs (c', ids @ [k], acc @ [u]) = Inr (c1, ids1, acc1)"
        by (auto split: sum.splits)
      from add_components_result [OF r] Cons.prems(2) have "k \<in> set S" by auto
      with Cons.IH [OF r Cons.prems(2)] t False u k show ?thesis by simp
    qed
  qed
qed

text \<open>Components of type \<^verbatim>\<open>file\<close> have no effect on the loop.\<close>

lemma add_components_without_files:
  "add_components (filter (\<lambda>c. py_getitem c ''type'' \<noteq> Inr (JStr ''file'')) fs) st = add_components fs st"
proof (induction fs arbitrary: st)
  case Nil
  then show ?case by simp
next
  case (Cons c fs)
  obtain c0 ids acc where st: "st = (c0, ids, acc)" by (cases st) auto
  show ?case
    unfolding st using Cons.IH by (auto split: sum.splits)
qed

lemma add_dependencies_result:
  "add_dependencies us d = Inr d' \<Longrightarrow>
   \<exists>app. set app \<subseteq> set us \<and> (app = [] \<and> d' = d \<or> (\<exists>xs. d = JArr xs \<and> d' = JArr (xs @ app)))"
proof (induction us arbitrary: d)
  case Nil
  then show ?case by auto
next
  case (Cons u us)
  from Cons.prems obtain b where b: "py_contains d u = Inr b" by (auto split: sum.splits)
  show ?case
  proof (cases b)
    case True
    with b Cons.prems have "add_dependencies us d = Inr d'" by simp
    from Cons.IH [OF this] obtain app where "set app \<subseteq> set us"
      "app = [] \<and> d' = d \<or> (\<exists>xs. d = JArr xs \<and> d' = JArr (xs @ app))" by blast
    note n = this
    show ?thesis by (rule exI [of _ app]) (use n in auto)
  next
    case False
    with b Cons.prems obtain d1 where a: "py_append d u = Inr d1" and r: "add_dependencies us d1 = Inr d'"
      by (auto split: sum.splits)
    from py_append_JArr [OF a] obtain xs where xs: "d = JArr xs" "d1 = JArr (xs @ [u])" by blast
    from Cons.IH [OF r] obtain app where app: "set app \<subseteq> set us"
      "app = [] \<and> d' = d1 \<or> (\<exists>ys. d1 = JArr ys \<and> d' = JArr (ys @ app))" by blast
    then have "d' = JArr (xs @ u # app)" using xs by auto
    note n = this app(1) xs
    show ?thesis by (rule exI [of _ "u # app"]) (use n in auto)
  qed
qed

text \<open>The lookup of line 613 depends on the \<^verbatim>\<open>ref\<close> values only, and its values are positions in the list.\<close>

lemma dependency_entry_lookup_cong:
  "map (\<lambda>d. py_getitem d ''ref'') ds = map (\<lambda>d. py_getitem d ''ref'') ds' \<Longrightarrow>
   dependency_entry_lookup ds n acc = dependency_entry_lookup ds' n acc"
proof (induction ds arbitrary: ds' n acc)
  case Nil
  then show ?case by simp
next
  case (Cons d ds)
  then obtain d' ds'' where "ds' = d' # ds''" by (cases ds') auto
  with Cons show ?case by (auto split: sum.splits)
qed

lemma dependency_entry_lookup_index:
  "dependency_entry_lookup ds m acc = Inr lk \<Longrightarrow> map_of lk k = Some n \<Longrightarrow>
   map_of acc k = Some n \<or>
   (m \<le> n \<and> n < m + length ds \<and> (\<exists>r. py_getitem (ds ! (n - m)) ''ref'' = Inr r \<and> py_hash r = Inr k))"
proof (induction ds arbitrary: m acc)
  case Nil
  then show ?case by simp
next
  case (Cons d ds)
  from Cons.prems(1) obtain r k0 where r: "py_getitem d ''ref'' = Inr r" and k0: "py_hash r = Inr k0"
    and rec: "dependency_entry_lookup ds (Suc m) (AList.update k0 m acc) = Inr lk"
    by (auto split: sum.splits)
  from Cons.IH [OF rec Cons.prems(2)]
  consider (old) "map_of (AList.update k0 m acc) k = Some n"
    | (new) "Suc m \<le> n" "n < Suc m + length ds"
        "\<exists>r. py_getitem (ds ! (n - Suc m)) ''ref'' = Inr r \<and> py_hash r = Inr k"
    by blast
  then show ?case
  proof cases
    case old
    show ?thesis
    proof (cases "k = k0")
      case True
      with old have "n = m" by (simp add: update_conv')
      with True r k0 show ?thesis by simp
    next
      case False
      with old show ?thesis by (simp add: update_conv')
    qed
  next
    case new
    from new(1) have "n - m = Suc (n - Suc m)" by simp
    with new show ?thesis by simp
  qed
qed

subsection \<open>The merge of lines 584-623\<close>

text \<open>The intermediate values of a merge that returns.\<close>

lemma merge_components_and_dependencies_success:
  assumes "merge_components_and_dependencies ctx project lookup cf doc = Inr merged"
  obtains comps0 cs ids0 fs comps1 ids1 added pid deps ds lk n direct direct1 where
    "py_getitem doc ''components'' = Inr comps0"
    "py_iter comps0 = Inr cs"
    "unique_ids_defined cs = Inr ids0"
    "py_iter cf = Inr fs"
    "add_components fs (comps0, ids0, []) = Inr (comps1, ids1, added)"
    "lookup_project ctx lookup project = Inr pid"
    "py_getitem doc ''dependencies'' = Inr deps"
    "py_iter deps = Inr ds"
    "dependency_entry_lookup ds 0 [] = Inr lk"
    "map_of lk (JStr pid) = Some n"
    "py_getitem (ds ! n) ''dependsOn'' = Inr direct"
    "add_dependencies added direct = Inr direct1"
    "merged = py_setitem (py_setitem doc ''components'' comps1) ''dependencies''
                (JArr (ds[n := py_setitem (ds ! n) ''dependsOn'' direct1]))"
  using assms unfolding merge_components_and_dependencies_def
  by (simp split: sum.splits option.splits prod.splits)

lemma merge_components_and_dependencies_intro:
  assumes
    "py_getitem doc ''components'' = Inr comps0"
    "py_iter comps0 = Inr cs"
    "unique_ids_defined cs = Inr ids0"
    "py_iter cf = Inr fs"
    "add_components fs (comps0, ids0, []) = Inr (comps1, ids1, added)"
    "lookup_project ctx lookup project = Inr pid"
    "py_getitem doc ''dependencies'' = Inr deps"
    "py_iter deps = Inr ds"
    "dependency_entry_lookup ds 0 [] = Inr lk"
    "map_of lk (JStr pid) = Some n"
    "py_getitem (ds ! n) ''dependsOn'' = Inr direct"
    "add_dependencies added direct = Inr direct1"
  shows "merge_components_and_dependencies ctx project lookup cf doc =
           Inr (py_setitem (py_setitem doc ''components'' comps1) ''dependencies''
                  (JArr (ds[n := py_setitem (ds ! n) ''dependsOn'' direct1])))"
  using assms unfolding merge_components_and_dependencies_def by simp

text \<open>Merging the same dependency metadata into the merged document changes nothing.\<close>

lemma merge_components_and_dependencies_idempotent:
  assumes "merge_components_and_dependencies ctx project lookup cf doc = Inr merged"
  shows "merge_components_and_dependencies ctx project lookup cf merged = Inr merged"
proof -
  from assms obtain comps0 cs ids0 fs comps1 ids1 added pid deps ds lk n direct direct1 where
    c0: "py_getitem doc ''components'' = Inr comps0"
    and cs: "py_iter comps0 = Inr cs"
    and ids0: "unique_ids_defined cs = Inr ids0"
    and fs: "py_iter cf = Inr fs"
    and add: "add_components fs (comps0, ids0, []) = Inr (comps1, ids1, added)"
    and pid: "lookup_project ctx lookup project = Inr pid"
    and deps: "py_getitem doc ''dependencies'' = Inr deps"
    and ds: "py_iter deps = Inr ds"
    and lk: "dependency_entry_lookup ds 0 [] = Inr lk"
    and n: "map_of lk (JStr pid) = Some n"
    and direct: "py_getitem (ds ! n) ''dependsOn'' = Inr direct"
    and direct1: "add_dependencies added direct = Inr direct1"
    and merged: "merged = py_setitem (py_setitem doc ''components'' comps1) ''dependencies''
                (JArr (ds[n := py_setitem (ds ! n) ''dependsOn'' direct1]))"
    by (rule merge_components_and_dependencies_success)
  let ?e1 = "py_setitem (ds ! n) ''dependsOn'' direct1"
  let ?ds1 = "ds[n := ?e1]"
  \<comment> \<open>the components of the merged document\<close>
  have m_c: "py_getitem merged ''components'' = Inr comps1"
    unfolding merged using py_getitem_setitem_same [OF c0, of "''components''" comps1]
    by (simp add: py_getitem_setitem_other)
  from add_components_result [OF add] obtain new ks us where r:
    "ids1 = ids0 @ ks"
    "new = [] \<and> comps1 = comps0 \<or> (\<exists>xs. comps0 = JArr xs \<and> comps1 = JArr (xs @ new))"
    "unique_ids_defined new = Inr ks"
    by auto
  from r(2) cs have cs1: "py_iter comps1 = Inr (cs @ new)"
    by (auto simp add: py_iter_def)
  have ids1: "unique_ids_defined (cs @ new) = Inr ids1"
    using unique_ids_defined_append [OF ids0 r(3)] r(1) by simp
  have again: "add_components fs (comps1, ids1, []) = Inr (comps1, ids1, [])"
    by (rule add_components_again [OF add]) simp
  \<comment> \<open>the dependency entries of the merged document\<close>
  have m_d: "py_getitem merged ''dependencies'' = Inr (JArr ?ds1)"
    unfolding merged
    by (rule py_getitem_setitem_same [of _ "''components''" comps1])
       (rule py_getitem_setitem_same [OF c0])
  have it: "py_iter (JArr ?ds1) = Inr ?ds1" by (simp add: py_iter_def)
  from dependency_entry_lookup_index [OF lk n] have nlt: "n < length ds" by simp
  have refs: "map (\<lambda>d. py_getitem d ''ref'') ?ds1 = map (\<lambda>d. py_getitem d ''ref'') ds"
    using nlt by (simp add: map_update py_getitem_setitem_other list_update_same_conv)
  have lk1: "dependency_entry_lookup ?ds1 0 [] = Inr lk"
    using dependency_entry_lookup_cong [OF refs] lk by simp
  have e1: "?ds1 ! n = ?e1" using nlt by simp
  have d1: "py_getitem (?ds1 ! n) ''dependsOn'' = Inr direct1"
    unfolding e1 by (rule py_getitem_setitem_same [OF direct])
  have same_entry: "?ds1[n := py_setitem (?ds1 ! n) ''dependsOn'' direct1] = ?ds1"
    using d1 by (simp add: py_setitem_triv)
  have "merge_components_and_dependencies ctx project lookup cf merged =
          Inr (py_setitem (py_setitem merged ''components'' comps1) ''dependencies''
                 (JArr (?ds1[n := py_setitem (?ds1 ! n) ''dependsOn'' direct1])))"
    by (rule merge_components_and_dependencies_intro
          [OF m_c cs1 ids1 fs again pid m_d it lk1 n d1]) simp
  also have "\<dots> = Inr merged"
    by (simp only: same_entry py_setitem_triv [OF m_c] py_setitem_triv [OF m_d])
  finally show ?thesis .
qed

text \<open>Every component of the dependency metadata is read as the loop requires.\<close>

lemma add_components_reads:
  "add_components fs st = Inr r \<Longrightarrow> c \<in> set fs \<Longrightarrow>
   \<exists>ty. py_getitem c ''type'' = Inr ty \<and>
     (ty \<noteq> JStr ''file'' \<longrightarrow> (\<exists>u k. py_getitem c ''bom-ref'' = Inr u \<and> py_hash u = Inr k))"
proof (induction fs arbitrary: st)
  case Nil
  then show ?case by simp
next
  case (Cons x fs)
  obtain c0 ids acc where st: "st = (c0, ids, acc)" by (cases st) auto
  from Cons.prems(1) [unfolded st] obtain ty where ty: "py_getitem x ''type'' = Inr ty"
    by (auto split: sum.splits)
  from Cons.prems(1) [unfolded st] ty
  have x: "ty \<noteq> JStr ''file'' \<longrightarrow> (\<exists>u k. py_getitem x ''bom-ref'' = Inr u \<and> py_hash u = Inr k)"
    by (auto split: sum.splits if_splits)
  from Cons.prems(1) [unfolded st] ty obtain st' where "add_components fs st' = Inr r"
    by (auto split: sum.splits if_splits)
  from Cons.IH [OF this] Cons.prems(2) ty x show ?case by auto
qed

text \<open>A dependency metadata list without its components of type \<^verbatim>\<open>file\<close> merges to the same document.\<close>

lemma merge_components_and_dependencies_without_files:
  assumes "py_iter cf = Inr fs"
  shows "merge_components_and_dependencies ctx project lookup
           (JArr (filter (\<lambda>c. py_getitem c ''type'' \<noteq> Inr (JStr ''file'')) fs)) doc =
         merge_components_and_dependencies ctx project lookup cf doc"
proof -
  have "py_iter (JArr (filter (\<lambda>c. py_getitem c ''type'' \<noteq> Inr (JStr ''file'')) fs)) =
          Inr (filter (\<lambda>c. py_getitem c ''type'' \<noteq> Inr (JStr ''file'')) fs)"
    by (simp add: py_iter_def)
  then show ?thesis
    unfolding merge_components_and_dependencies_def
    by (simp add: assms add_components_without_files cong: sum.case_cong)
qed

subsection \<open>The function with its files\<close>

text \<open>
  When the block raises, the file is as the last write left it: untouched, if the write
  operation is all or nothing.
\<close>

lemma merge_try_block_with_raises:
  assumes "\<And>n j n' e'. w n j = (n', Some e') \<Longrightarrow> n' = n"
      and "merge_try_block_with w ctx project lookup f t = (t', Some e)"
  shows "t' = t"
  using assms(2) unfolding merge_try_block_with_def
  by (auto split: sum.splits dest: assms(1))

lemma write_json_all_or_nothing: "write_json n j = (n', Some e) \<Longrightarrow> n' = n"
  by (simp add: write_json_def split: if_splits)

lemma merge_try_block_raises:
  "merge_try_block ctx project lookup f t = (t', Some e) \<Longrightarrow> t' = t"
  unfolding merge_try_block_def
  by (rule merge_try_block_with_raises [where w = write_json]) (rule write_json_all_or_nothing)

lemma merge_try_block_success:
  assumes "merge_try_block ctx project lookup f t = (t', None)"
  obtains fd cf doc merged where
    "read_json f = Inr fd" "py_getitem fd ''components'' = Inr cf" "read_json t = Inr doc"
    "merge_components_and_dependencies ctx project lookup cf doc = Inr merged"
    "writable t" "t' = t\<lparr>content := Json merged\<rparr>"
  using assms unfolding merge_try_block_def merge_try_block_with_def write_json_def
  by (simp split: sum.splits if_splits)

lemma merge_returned_True:
  "merge_try_block ctx project lookup f t = (t', None) \<Longrightarrow>
   MergeDependencyMetadataSbomIntoCustomSoftwareSbom ctx project lookup f t =
     (True, [Info (merge_info (Name ctx project))], t')"
  by (simp add: merge_unfold)

lemma merge_returned_False:
  "merge_try_block ctx project lookup f t = (t', Some e) \<Longrightarrow>
   MergeDependencyMetadataSbomIntoCustomSoftwareSbom ctx project lookup f t =
     (False, [Warn (merge_warning (Name ctx project) e)], t')"
  by (simp add: merge_unfold)

lemma merge_returns_True_iff:
  "fst (MergeDependencyMetadataSbomIntoCustomSoftwareSbom ctx project lookup f t) \<longleftrightarrow>
   (\<exists>t'. merge_try_block ctx project lookup f t = (t', None))"
  by (simp add: merge_unfold split: prod.splits option.splits)

text \<open>
  C3. Merging the same dependency metadata file again, into the custom software SBOM file
  that the first merge left, returns what the first merge returned and leaves the file as
  the first merge left it: the second merge appends no component and no \<^verbatim>\<open>dependsOn\<close>
  entry.
\<close>

theorem C3_merge_idempotent:
  "MergeDependencyMetadataSbomIntoCustomSoftwareSbom ctx project lookup f
     (snd (snd (MergeDependencyMetadataSbomIntoCustomSoftwareSbom ctx project lookup f t))) =
   MergeDependencyMetadataSbomIntoCustomSoftwareSbom ctx project lookup f t"
proof -
  obtain t' r where m: "merge_try_block ctx project lookup f t = (t', r)"
    by (cases "merge_try_block ctx project lookup f t") auto
  show ?thesis
  proof (cases r)
    case (Some e)
    with m have "t' = t" by (simp add: merge_try_block_raises)
    with m Some show ?thesis by (simp add: merge_returned_False)
  next
    case None
    with m have ok: "merge_try_block ctx project lookup f t = (t', None)" by simp
    then obtain fd cf doc merged where s:
      "read_json f = Inr fd" "py_getitem fd ''components'' = Inr cf" "read_json t = Inr doc"
      "merge_components_and_dependencies ctx project lookup cf doc = Inr merged"
      "writable t" "t' = t\<lparr>content := Json merged\<rparr>"
      by (rule merge_try_block_success)
    have "merge_try_block ctx project lookup f t' = (t', None)"
      using s(1,2,5,6) merge_components_and_dependencies_idempotent [OF s(4)]
      by (simp add: merge_try_block_def merge_try_block_with_def read_json_def write_json_def)
    with ok show ?thesis by (simp add: merge_returned_True)
  qed
qed

text \<open>
  Witness for C3: the example dependency metadata merged a second time for \<open>Zlib\<close>, into
  the document that the first merge left.
\<close>

theorem C3_merge_idempotent_witness:
  "MergeDependencyMetadataSbomIntoCustomSoftwareSbom example_context Zlib example_lookup
       \<lparr> content = Json example_fragment, writable = False \<rparr>
       \<lparr> content = Json example_merged, writable = True \<rparr> =
     (True, [Info (merge_info ''zlib'')], \<lparr> content = Json example_merged, writable = True \<rparr>)"
  using C3_merge_idempotent
          [of example_context Zlib example_lookup
              "\<lparr> content = Json example_fragment, writable = False \<rparr>"
              "\<lparr> content = Json example_initial, writable = True \<rparr>"]
  by (simp add: example_merge)

text \<open>
  The scenario of a document that already has the package: merging the example dependency
  metadata (\<^verbatim>\<open>pkgA\<close> and the file \<^verbatim>\<open>fileX\<close>) for the owner \<open>R\<close> into a document that has
  \<^verbatim>\<open>pkgA\<close> adds no component and no \<^verbatim>\<open>dependsOn\<close> entry.
\<close>

lemma merge_into_document_with_the_package:
  "MergeDependencyMetadataSbomIntoCustomSoftwareSbom example_context App [(App, ''R'')]
       \<lparr> content = Json example_fragment, writable = False \<rparr>
       \<lparr> content = Json example_document, writable = True \<rparr> =
     (True, [Info (merge_info ''App'')], \<lparr> content = Json example_document, writable = True \<rparr>)"
  by (simp add: merge_unfold merge_components_and_dependencies_def read_json_def write_json_def
        example_fragment_def example_document_def
        py_getitem_def py_setitem_def py_iter_def py_hash_def py_key_def
        py_append_def py_contains_def lookup_project_def)

text \<open>
  C4. When a merge succeeds, the components of the merged document are those of the custom
  software SBOM followed by appended components \<open>new\<close>; every appended component is a
  component of the dependency metadata whose type is not \<^verbatim>\<open>file\<close>. The only dependency
  entry that changes is the owning project's; its \<^verbatim>\<open>dependsOn\<close> is the old one followed by
  appended ids \<open>app\<close>, and every appended id is the unique id of an appended component. So a
  component of type \<^verbatim>\<open>file\<close> is never appended and never contributes a \<^verbatim>\<open>dependsOn\<close>
  entry. Moreover the merge does exactly what it does on the dependency metadata with the
  components of type \<^verbatim>\<open>file\<close> removed.
\<close>

theorem C4_file_components_are_discarded:
  assumes "MergeDependencyMetadataSbomIntoCustomSoftwareSbom ctx project lookup f t = (True, lg, t')"
  shows "\<exists>fd cf fs doc merged comps0 cs comps1 new deps ds n direct direct1 app.
     read_json f = Inr fd \<and> py_getitem fd ''components'' = Inr cf \<and> py_iter cf = Inr fs \<and>
     read_json t = Inr doc \<and> read_json t' = Inr merged \<and>
     py_getitem doc ''components'' = Inr comps0 \<and> py_iter comps0 = Inr cs \<and>
     py_getitem merged ''components'' = Inr comps1 \<and> py_iter comps1 = Inr (cs @ new) \<and>
     (\<forall>c \<in> set new. c \<in> set fs \<and> py_getitem c ''type'' \<noteq> Inr (JStr ''file'')) \<and>
     py_getitem doc ''dependencies'' = Inr deps \<and> py_iter deps = Inr ds \<and> n < length ds \<and>
     py_getitem merged ''dependencies'' =
       Inr (JArr (ds[n := py_setitem (ds ! n) ''dependsOn'' direct1])) \<and>
     py_getitem (ds ! n) ''dependsOn'' = Inr direct \<and>
     (app = [] \<and> direct1 = direct \<or> (\<exists>xs. direct = JArr xs \<and> direct1 = JArr (xs @ app))) \<and>
     (\<forall>u \<in> set app. \<exists>c \<in> set new. py_getitem c ''bom-ref'' = Inr u) \<and>
     MergeDependencyMetadataSbomIntoCustomSoftwareSbom ctx project lookup
       (f\<lparr>content := Json (py_setitem fd ''components''
            (JArr (filter (\<lambda>c. py_getitem c ''type'' \<noteq> Inr (JStr ''file'')) fs)))\<rparr>) t =
     MergeDependencyMetadataSbomIntoCustomSoftwareSbom ctx project lookup f t"
proof -
  from assms have ok: "merge_try_block ctx project lookup f t = (t', None)"
    by (simp add: merge_unfold split: prod.splits option.splits)
  then obtain fd cf doc merged where s:
    "read_json f = Inr fd" "py_getitem fd ''components'' = Inr cf" "read_json t = Inr doc"
    "merge_components_and_dependencies ctx project lookup cf doc = Inr merged"
    "writable t" "t' = t\<lparr>content := Json merged\<rparr>"
    by (rule merge_try_block_success)
  from s(4) obtain comps0 cs ids0 fs comps1 ids1 added pid deps ds lk n direct direct1 where
    c0: "py_getitem doc ''components'' = Inr comps0"
    and cs: "py_iter comps0 = Inr cs"
    and fs: "py_iter cf = Inr fs"
    and add: "add_components fs (comps0, ids0, []) = Inr (comps1, ids1, added)"
    and deps: "py_getitem doc ''dependencies'' = Inr deps"
    and ds: "py_iter deps = Inr ds"
    and lk: "dependency_entry_lookup ds 0 [] = Inr lk"
    and n: "map_of lk (JStr pid) = Some n"
    and direct: "py_getitem (ds ! n) ''dependsOn'' = Inr direct"
    and direct1: "add_dependencies added direct = Inr direct1"
    and merged: "merged = py_setitem (py_setitem doc ''components'' comps1) ''dependencies''
                (JArr (ds[n := py_setitem (ds ! n) ''dependsOn'' direct1]))"
    by (rule merge_components_and_dependencies_success)
  from add_components_result [OF add] obtain new us where r:
    "added = us"
    "new = [] \<and> comps1 = comps0 \<or> (\<exists>xs. comps0 = JArr xs \<and> comps1 = JArr (xs @ new))"
    "map (\<lambda>c. py_getitem c ''bom-ref'') new = map Inr us"
    "\<forall>c \<in> set new. c \<in> set fs \<and> py_getitem c ''type'' \<noteq> Inr (JStr ''file'')"
    by auto
  from add_dependencies_result [OF direct1] obtain app where app:
    "set app \<subseteq> set added"
    "app = [] \<and> direct1 = direct \<or> (\<exists>xs. direct = JArr xs \<and> direct1 = JArr (xs @ app))"
    by blast
  have m_r: "read_json t' = Inr merged" using s(6) by (simp add: read_json_def)
  have m_c: "py_getitem merged ''components'' = Inr comps1"
    unfolding merged using py_getitem_setitem_same [OF c0, of "''components''" comps1]
    by (simp add: py_getitem_setitem_other)
  have cs1: "py_iter comps1 = Inr (cs @ new)"
    using r(2) cs by (auto simp add: py_iter_def)
  have m_d: "py_getitem merged ''dependencies'' =
               Inr (JArr (ds[n := py_setitem (ds ! n) ''dependsOn'' direct1]))"
    unfolding merged
    by (rule py_getitem_setitem_same [of _ "''components''" comps1])
       (rule py_getitem_setitem_same [OF c0])
  from dependency_entry_lookup_index [OF lk n] have nlt: "n < length ds" by simp
  have from_new: "\<forall>u \<in> set app. \<exists>c \<in> set new. py_getitem c ''bom-ref'' = Inr u"
  proof
    fix u assume "u \<in> set app"
    with app(1) r(1) have "Inr u \<in> set (map Inr us :: (error + json) list)" by auto
    with r(3) have "Inr u \<in> set (map (\<lambda>c. py_getitem c ''bom-ref'') new)" by simp
    then show "\<exists>c \<in> set new. py_getitem c ''bom-ref'' = Inr u" by auto
  qed
  let ?f' = "f\<lparr>content := Json (py_setitem fd ''components''
            (JArr (filter (\<lambda>c. py_getitem c ''type'' \<noteq> Inr (JStr ''file'')) fs)))\<rparr>"
  have "merge_try_block ctx project lookup ?f' t = merge_try_block ctx project lookup f t"
  proof -
    have "read_json ?f' = Inr (py_setitem fd ''components''
            (JArr (filter (\<lambda>c. py_getitem c ''type'' \<noteq> Inr (JStr ''file'')) fs)))"
      by (simp add: read_json_def)
    moreover have "py_getitem (py_setitem fd ''components''
            (JArr (filter (\<lambda>c. py_getitem c ''type'' \<noteq> Inr (JStr ''file'')) fs))) ''components'' =
          Inr (JArr (filter (\<lambda>c. py_getitem c ''type'' \<noteq> Inr (JStr ''file'')) fs))"
      by (rule py_getitem_setitem_same [OF s(2)])
    ultimately show ?thesis
      unfolding merge_try_block_def merge_try_block_with_def
      by (simp only: s(1,2,3) merge_components_and_dependencies_without_files [OF fs] sum.case)
  qed
  then have same: "MergeDependencyMetadataSbomIntoCustomSoftwareSbom ctx project lookup ?f' t =
     MergeDependencyMetadataSbomIntoCustomSoftwareSbom ctx project lookup f t"
    by (simp add: MergeDependencyMetadataSbomIntoCustomSoftwareSbom_def
          MergeDependencyMetadataSbomIntoCustomSoftwareSbom_with_def merge_try_block_def)
  show ?thesis
    by (rule exI [of _ fd], rule exI [of _ cf], rule exI [of _ fs], rule exI [of _ doc],
        rule exI [of _ merged], rule exI [of _ comps0], rule exI [of _ cs], rule exI [of _ comps1],
        rule exI [of _ new], rule exI [of _ deps], rule exI [of _ ds], rule exI [of _ n],
        rule exI [of _ direct], rule exI [of _ direct1], rule exI [of _ app])
       (intro conjI; fact s(1,2,3) fs m_r c0 cs m_c cs1 r(4) deps ds nlt m_d direct app(2) from_new same)
qed

text \<open>
  Witness for C4: the example dependency metadata (the package \<^verbatim>\<open>pkgA\<close> and the scanned
  file \<^verbatim>\<open>fileX\<close>) merged for \<open>Zlib\<close> into the initial document of the example graph.
\<close>

theorem C4_file_components_are_discarded_witness:
  "\<exists>fd cf fs new comps1 cs.
     read_json \<lparr> content = Json example_fragment, writable = False \<rparr> = Inr fd \<and>
     py_getitem fd ''components'' = Inr cf \<and> py_iter cf = Inr fs \<and>
     py_getitem example_merged ''components'' = Inr comps1 \<and>
     py_iter comps1 = Inr (cs @ new) \<and>
     list_all (\<lambda>c. c \<in> set fs \<and> py_getitem c ''type'' \<noteq> Inr (JStr ''file'')) new \<and>
     MergeDependencyMetadataSbomIntoCustomSoftwareSbom example_context Zlib example_lookup
       (\<lparr> content = Json example_fragment, writable = False \<rparr>
          \<lparr>content := Json (py_setitem fd ''components''
             (JArr (filter (\<lambda>c. py_getitem c ''type'' \<noteq> Inr (JStr ''file'')) fs)))\<rparr>)
       \<lparr> content = Json example_initial, writable = True \<rparr> =
     (True, [Info (merge_info ''zlib'')], \<lparr> content = Json example_merged, writable = True \<rparr>)"
proof -
  from C4_file_components_are_discarded [OF example_merge]
  obtain fd cf fs merged comps1 cs new where w:
    "read_json \<lparr> content = Json example_fragment, writable = False \<rparr> = Inr fd"
    "py_getitem fd ''components'' = Inr cf" "py_iter cf = Inr fs"
    "read_json \<lparr> content = Json example_merged, writable = True \<rparr> = Inr merged"
    "py_getitem merged ''components'' = Inr comps1" "py_iter comps1 = Inr (cs @ new)"
    "\<forall>c \<in> set new. c \<in> set fs \<and> py_getitem c ''type'' \<noteq> Inr (JStr ''file'')"
    "MergeDependencyMetadataSbomIntoCustomSoftwareSbom example_context Zlib example_lookup
       (\<lparr> content = Json example_fragment, writable = False \<rparr>
          \<lparr>content := Json (py_setitem fd ''components''
             (JArr (filter (\<lambda>c. py_getitem c ''type'' \<noteq> Inr (JStr ''file'')) fs)))\<rparr>)
       \<lparr> content = Json example_initial, writable = True \<rparr> =
     MergeDependencyMetadataSbomIntoCustomSoftwareSbom example_context Zlib example_lookup
       \<lparr> content = Json example_fragment, writable = False \<rparr>
       \<lparr> content = Json example_initial, writable = True \<rparr>"
    by (elim exE conjE) (rule that; assumption)
  from w(4) have m: "merged = example_merged" by (simp add: read_json_def)
  from w(7) have l: "list_all (\<lambda>c. c \<in> set fs \<and> py_getitem c ''type'' \<noteq> Inr (JStr ''file'')) new"
    by (simp add: list_all_iff)
  have e: "MergeDependencyMetadataSbomIntoCustomSoftwareSbom example_context Zlib example_lookup
       (\<lparr> content = Json example_fragment, writable = False \<rparr>
          \<lparr>content := Json (py_setitem fd ''components''
             (JArr (filter (\<lambda>c. py_getitem c ''type'' \<noteq> Inr (JStr ''file'')) fs)))\<rparr>)
       \<lparr> content = Json example_initial, writable = True \<rparr> =
     (True, [Info (merge_info ''zlib'')], \<lparr> content = Json example_merged, writable = True \<rparr>)"
    by (simp only: w(8) example_merge)
  note c = w(5) [unfolded m]
  show ?thesis
    by (rule exI [of _ fd], rule exI [of _ cf], rule exI [of _ fs], rule exI [of _ new],
        rule exI [of _ comps1], rule exI [of _ cs])
       (intro conjI; fact w(1,2,3,6) c l e)
qed

text \<open>
  C8. Whatever exception \<open>e\<close> the \<^verbatim>\<open>try\<close> block raises, the function returns \<^verbatim>\<open>False\<close>,
  logs one warning, whose text contains the owning project's name and \<^verbatim>\<open>str(e)\<close>, and
  leaves the custom software SBOM file as it was; it returns \<^verbatim>\<open>True\<close> only when the block
  raised nothing. Each of these makes the block raise: a dependency metadata file or a
  custom software SBOM file that cannot be read or parsed; a dependency metadata object or
  document without \<^verbatim>\<open>components\<close>, a document without \<^verbatim>\<open>dependencies\<close>; a component of the
  dependency metadata without \<^verbatim>\<open>type\<close>, or, when it is not of type \<^verbatim>\<open>file\<close>, without
  \<^verbatim>\<open>bom-ref\<close>; an owning project that is not in the lookup; no dependency entry whose
  \<^verbatim>\<open>ref\<close> is the owning project's unique id; a custom software SBOM file that cannot be
  written.
\<close>

theorem C8_merge_failures_are_caught:
  "(snd (merge_try_block ctx project lookup f t) = Some e \<longrightarrow>
      MergeDependencyMetadataSbomIntoCustomSoftwareSbom ctx project lookup f t =
        (False,
         [Warn (''Failed to merge components and dependencies for '' @ Name ctx project @
                '' into Custom Software SBOM: '' @ str_error e)],
         t)) \<and>
   (fst (MergeDependencyMetadataSbomIntoCustomSoftwareSbom ctx project lookup f t) \<longrightarrow>
      (\<exists>t'. merge_try_block ctx project lookup f t = (t', None))) \<and>
   ((\<exists>e1. read_json f = Inl e1) \<or>
    (\<exists>fd e1. read_json f = Inr fd \<and> py_getitem fd ''components'' = Inl e1) \<or>
    (\<exists>e1. read_json t = Inl e1) \<or>
    (\<exists>doc e1. read_json t = Inr doc \<and> py_getitem doc ''components'' = Inl e1) \<or>
    (\<exists>doc e1. read_json t = Inr doc \<and> py_getitem doc ''dependencies'' = Inl e1) \<or>
    (\<exists>fd cf fs c e1. read_json f = Inr fd \<and> py_getitem fd ''components'' = Inr cf \<and>
       py_iter cf = Inr fs \<and> c \<in> set fs \<and> py_getitem c ''type'' = Inl e1) \<or>
    (\<exists>fd cf fs c ty e1. read_json f = Inr fd \<and> py_getitem fd ''components'' = Inr cf \<and>
       py_iter cf = Inr fs \<and> c \<in> set fs \<and> py_getitem c ''type'' = Inr ty \<and> ty \<noteq> JStr ''file'' \<and>
       py_getitem c ''bom-ref'' = Inl e1) \<or>
    map_of lookup project = None \<or>
    (\<exists>doc deps ds pid. read_json t = Inr doc \<and> py_getitem doc ''dependencies'' = Inr deps \<and>
       py_iter deps = Inr ds \<and> map_of lookup project = Some pid \<and>
       list_all (\<lambda>d. py_getitem d ''ref'' \<noteq> Inr (JStr pid)) ds) \<or>
    \<not> writable t \<longrightarrow>
    (\<exists>e'. MergeDependencyMetadataSbomIntoCustomSoftwareSbom ctx project lookup f t =
        (False, [Warn (merge_warning (Name ctx project) e')], t)))"
proof (intro conjI impI)
  assume "snd (merge_try_block ctx project lookup f t) = Some e"
  then obtain t' where m: "merge_try_block ctx project lookup f t = (t', Some e)"
    by (cases "merge_try_block ctx project lookup f t") auto
  then have "t' = t" by (rule merge_try_block_raises)
  with m show "MergeDependencyMetadataSbomIntoCustomSoftwareSbom ctx project lookup f t =
        (False,
         [Warn (''Failed to merge components and dependencies for '' @ Name ctx project @
                '' into Custom Software SBOM: '' @ str_error e)],
         t)"
    by (simp add: merge_returned_False merge_warning_def)
next
  assume "fst (MergeDependencyMetadataSbomIntoCustomSoftwareSbom ctx project lookup f t)"
  then show "\<exists>t'. merge_try_block ctx project lookup f t = (t', None)"
    by (simp add: merge_returns_True_iff)
next
  assume cause:
   "(\<exists>e1. read_json f = Inl e1) \<or>
    (\<exists>fd e1. read_json f = Inr fd \<and> py_getitem fd ''components'' = Inl e1) \<or>
    (\<exists>e1. read_json t = Inl e1) \<or>
    (\<exists>doc e1. read_json t = Inr doc \<and> py_getitem doc ''components'' = Inl e1) \<or>
    (\<exists>doc e1. read_json t = Inr doc \<and> py_getitem doc ''dependencies'' = Inl e1) \<or>
    (\<exists>fd cf fs c e1. read_json f = Inr fd \<and> py_getitem fd ''components'' = Inr cf \<and>
       py_iter cf = Inr fs \<and> c \<in> set fs \<and> py_getitem c ''type'' = Inl e1) \<or>
    (\<exists>fd cf fs c ty e1. read_json f = Inr fd \<and> py_getitem fd ''components'' = Inr cf \<and>
       py_iter cf = Inr fs \<and> c \<in> set fs \<and> py_getitem c ''type'' = Inr ty \<and> ty \<noteq> JStr ''file'' \<and>
       py_getitem c ''bom-ref'' = Inl e1) \<or>
    map_of lookup project = None \<or>
    (\<exists>doc deps ds pid. read_json t = Inr doc \<and> py_getitem doc ''dependencies'' = Inr deps \<and>
       py_iter deps = Inr ds \<and> map_of lookup project = Some pid \<and>
       list_all (\<lambda>d. py_getitem d ''ref'' \<noteq> Inr (JStr pid)) ds) \<or>
    \<not> writable t"
  have "\<not> (\<exists>t'. merge_try_block ctx project lookup f t = (t', None))"
  proof
    assume "\<exists>t'. merge_try_block ctx project lookup f t = (t', None)"
    then obtain t' where "merge_try_block ctx project lookup f t = (t', None)" ..
    then obtain fd cf doc merged where s:
      "read_json f = Inr fd" "py_getitem fd ''components'' = Inr cf" "read_json t = Inr doc"
      "merge_components_and_dependencies ctx project lookup cf doc = Inr merged"
      "writable t"
      by (rule merge_try_block_success)
    from s(4) obtain comps0 cs ids0 fs comps1 ids1 added pid deps ds lk n direct where
      c0: "py_getitem doc ''components'' = Inr comps0"
      and fs: "py_iter cf = Inr fs"
      and add: "add_components fs (comps0, ids0, []) = Inr (comps1, ids1, added)"
      and pid: "lookup_project ctx lookup project = Inr pid"
      and deps: "py_getitem doc ''dependencies'' = Inr deps"
      and ds: "py_iter deps = Inr ds"
      and lk: "dependency_entry_lookup ds 0 [] = Inr lk"
      and n: "map_of lk (JStr pid) = Some n"
      by (rule merge_components_and_dependencies_success)
    from pid have p: "map_of lookup project = Some pid"
      by (simp add: lookup_project_def split: option.splits)
    from dependency_entry_lookup_index [OF lk n] obtain r where
      "n < length ds" "py_getitem (ds ! n) ''ref'' = Inr r" "py_hash r = Inr (JStr pid)"
      by auto
    then have entry: "\<not> list_all (\<lambda>d. py_getitem d ''ref'' \<noteq> Inr (JStr pid)) ds"
      using py_hash_JStr [of r pid] by (auto simp add: list_all_length)
    have comps: "\<And>c. c \<in> set fs \<Longrightarrow> \<exists>ty. py_getitem c ''type'' = Inr ty \<and>
       (ty \<noteq> JStr ''file'' \<longrightarrow> (\<exists>u k. py_getitem c ''bom-ref'' = Inr u \<and> py_hash u = Inr k))"
      by (rule add_components_reads [OF add])
    from cause show False
    proof (elim disjE exE conjE)
      fix fd' cf' fs' c e1
      assume "read_json f = Inr fd'" "py_getitem fd' ''components'' = Inr cf'" "py_iter cf' = Inr fs'"
        "c \<in> set fs'" "py_getitem c ''type'' = Inl e1"
      with s(1,2) fs comps [of c] show False by auto
    next
      fix fd' cf' fs' c ty e1
      assume "read_json f = Inr fd'" "py_getitem fd' ''components'' = Inr cf'" "py_iter cf' = Inr fs'"
        "c \<in> set fs'" "py_getitem c ''type'' = Inr ty" "ty \<noteq> JStr ''file''" "py_getitem c ''bom-ref'' = Inl e1"
      with s(1,2) fs comps [of c] show False by auto
    next
      fix doc' deps' ds' pid'
      assume "read_json t = Inr doc'" "py_getitem doc' ''dependencies'' = Inr deps'" "py_iter deps' = Inr ds'"
        "map_of lookup project = Some pid'" "list_all (\<lambda>d. py_getitem d ''ref'' \<noteq> Inr (JStr pid')) ds'"
      with s(3) deps ds p entry show False by auto
    qed (use s c0 deps p in auto)
  qed
  then obtain t' e' where m: "merge_try_block ctx project lookup f t = (t', Some e')"
    by (cases "merge_try_block ctx project lookup f t") (auto simp add: option.exhaust_sel)
  then have "t' = t" by (rule merge_try_block_raises)
  with m show "\<exists>e'. MergeDependencyMetadataSbomIntoCustomSoftwareSbom ctx project lookup f t =
        (False, [Warn (merge_warning (Name ctx project) e')], t)"
    by (auto simp add: merge_returned_False)
qed

text \<open>
  Witness for C8: a dependency metadata file without \<^verbatim>\<open>components\<close> makes the merge for
  \<open>Zlib\<close> return \<^verbatim>\<open>False\<close> with the warning for \<^verbatim>\<open>KeyError: 'components'\<close>; a merge for
  \<open>Foo\<close>, which is not in the lookup, returns \<^verbatim>\<open>False\<close> with a warning.
\<close>

theorem C8_merge_failures_are_caught_witness:
  "MergeDependencyMetadataSbomIntoCustomSoftwareSbom example_context Zlib example_lookup
       \<lparr> content = Json (JObj [(''bomFormat'', JStr ''CycloneDX'')]), writable = False \<rparr>
       \<lparr> content = Json example_initial, writable = True \<rparr> =
     (False,
      [Warn (''Failed to merge components and dependencies for zlib into Custom Software SBOM: '' @
             py_repr ''components'')],
      \<lparr> content = Json example_initial, writable = True \<rparr>) \<and>
   (\<exists>e'. MergeDependencyMetadataSbomIntoCustomSoftwareSbom example_context Foo example_lookup
       \<lparr> content = Json example_fragment, writable = False \<rparr>
       \<lparr> content = Json example_initial, writable = True \<rparr> =
     (False, [Warn (merge_warning ''foo'' e')], \<lparr> content = Json example_initial, writable = True \<rparr>))"
proof -
  have "snd (merge_try_block example_context Zlib example_lookup
          \<lparr> content = Json (JObj [(''bomFormat'', JStr ''CycloneDX'')]), writable = False \<rparr>
          \<lparr> content = Json example_initial, writable = True \<rparr>) =
        Some (KeyError (py_repr ''components''))"
    by (simp add: merge_try_block_def merge_try_block_with_def read_json_def py_getitem_def)
  from C8_merge_failures_are_caught [THEN conjunct1, rule_format, OF this]
  have 1: "MergeDependencyMetadataSbomIntoCustomSoftwareSbom example_context Zlib example_lookup
       \<lparr> content = Json (JObj [(''bomFormat'', JStr ''CycloneDX'')]), writable = False \<rparr>
       \<lparr> content = Json example_initial, writable = True \<rparr> =
     (False,
      [Warn (''Failed to merge components and dependencies for zlib into Custom Software SBOM: '' @
             py_repr ''components'')],
      \<lparr> content = Json example_initial, writable = True \<rparr>)"
    by (simp add: str_error_def)
  have "map_of example_lookup Foo = None" by (simp add: example_lookup_def)
  with C8_merge_failures_are_caught
         [of example_context Foo example_lookup
             "\<lparr> content = Json example_fragment, writable = False \<rparr>"
             "\<lparr> content = Json example_initial, writable = True \<rparr>",
          THEN conjunct2, THEN conjunct2]
  have 2: "\<exists>e'. MergeDependencyMetadataSbomIntoCustomSoftwareSbom example_context Foo example_lookup
       \<lparr> content = Json example_fragment, writable = False \<rparr>
       \<lparr> content = Json example_initial, writable = True \<rparr> =
     (False, [Warn (merge_warning ''foo'' e')], \<lparr> content = Json example_initial, writable = True \<rparr>)"
    by simp
  from 1 2 show ?thesis by (rule conjI)
qed

text \<open>
  C10, amended. For every write operation that is all or nothing (one that, when it raises,
  leaves the file as it was): whenever the function returns \<^verbatim>\<open>False\<close>, the custom software
  SBOM file is as it was before the call; and when it returns \<^verbatim>\<open>True\<close>, both files were
  read, the merge of lines 584-623 was done in memory, and the file is what the one write,
  the last step of the \<^verbatim>\<open>try\<close> block, made of it.
\<close>

theorem C10_failed_merge_leaves_file:
  assumes "\<forall>n j n' e. w n j = (n', Some e) \<longrightarrow> n' = n"
  shows
  "(MergeDependencyMetadataSbomIntoCustomSoftwareSbom_with w ctx project lookup f t = (False, lg, t') \<longrightarrow>
      t' = t) \<and>
   (MergeDependencyMetadataSbomIntoCustomSoftwareSbom_with w ctx project lookup f t = (True, lg, t') \<longrightarrow>
      (\<exists>fd cf doc merged. read_json f = Inr fd \<and> py_getitem fd ''components'' = Inr cf \<and>
         read_json t = Inr doc \<and>
         merge_components_and_dependencies ctx project lookup cf doc = Inr merged \<and>
         w t merged = (t', None)))"
proof (intro conjI impI)
  from assms have aon: "\<And>n j n' e. w n j = (n', Some e) \<Longrightarrow> n' = n" by blast
  assume "MergeDependencyMetadataSbomIntoCustomSoftwareSbom_with w ctx project lookup f t = (False, lg, t')"
  then obtain e where m: "merge_try_block_with w ctx project lookup f t = (t', Some e)"
    by (simp add: MergeDependencyMetadataSbomIntoCustomSoftwareSbom_with_def
          split: prod.splits option.splits)
  show "t' = t"
    by (rule merge_try_block_with_raises [where w = w, OF aon m])
next
  assume "MergeDependencyMetadataSbomIntoCustomSoftwareSbom_with w ctx project lookup f t = (True, lg, t')"
  then have m: "merge_try_block_with w ctx project lookup f t = (t', None)"
    by (simp add: MergeDependencyMetadataSbomIntoCustomSoftwareSbom_with_def
          split: prod.splits option.splits)
  show "\<exists>fd cf doc merged. read_json f = Inr fd \<and> py_getitem fd ''components'' = Inr cf \<and>
         read_json t = Inr doc \<and>
         merge_components_and_dependencies ctx project lookup cf doc = Inr merged \<and>
         w t merged = (t', None)"
  proof (cases "read_json f")
    case (Inl e)
    with m show ?thesis by (simp add: merge_try_block_with_def)
  next
    case fd: (Inr fd)
    show ?thesis
    proof (cases "py_getitem fd ''components''")
      case (Inl e)
      with m fd show ?thesis by (simp add: merge_try_block_with_def)
    next
      case cf: (Inr cf)
      show ?thesis
      proof (cases "read_json t")
        case (Inl e)
        with m fd cf show ?thesis by (simp add: merge_try_block_with_def)
      next
        case doc: (Inr doc)
        show ?thesis
        proof (cases "merge_components_and_dependencies ctx project lookup cf doc")
          case (Inl e)
          with m fd cf doc show ?thesis by (simp add: merge_try_block_with_def)
        next
          case (Inr merged)
          with m fd cf doc have "w t merged = (t', None)" by (simp add: merge_try_block_with_def)
          with fd cf doc Inr show ?thesis by blast
        qed
      qed
    qed
  qed
qed

text \<open>
  Witness for C10, with the all-or-nothing \<open>write_json\<close>: the dependency metadata has a
  component without \<^verbatim>\<open>bom-ref\<close> after the package \<^verbatim>\<open>pkgA\<close>; the merge fails after \<^verbatim>\<open>pkgA\<close>
  was appended in memory, and the file still holds the initial document.
\<close>

theorem C10_failed_merge_leaves_file_witness:
  "\<exists>lg. MergeDependencyMetadataSbomIntoCustomSoftwareSbom_with write_json
       example_context Zlib example_lookup
       \<lparr> content = Json (JObj [(''components'',
            JArr [JObj [(''bom-ref'', JStr ''pkgA''), (''type'', JStr ''library'')],
                  JObj [(''type'', JStr ''library'')]])]), writable = False \<rparr>
       \<lparr> content = Json example_initial, writable = True \<rparr> =
     (False, lg, \<lparr> content = Json example_initial, writable = True \<rparr>)"
proof -
  have a: "\<forall>n j n' e. write_json n j = (n', Some e) \<longrightarrow> n' = n"
    by (simp add: write_json_all_or_nothing)
  obtain lg t' where m:
    "MergeDependencyMetadataSbomIntoCustomSoftwareSbom_with write_json
       example_context Zlib example_lookup
       \<lparr> content = Json (JObj [(''components'',
            JArr [JObj [(''bom-ref'', JStr ''pkgA''), (''type'', JStr ''library'')],
                  JObj [(''type'', JStr ''library'')]])]), writable = False \<rparr>
       \<lparr> content = Json example_initial, writable = True \<rparr> = (False, lg, t')"
    by (simp add: MergeDependencyMetadataSbomIntoCustomSoftwareSbom_with_def
        merge_try_block_with_def merge_components_and_dependencies_def read_json_def
        example_initial_def py_getitem_def py_iter_def py_hash_def py_key_def py_append_def)
  from C10_failed_merge_leaves_file [OF a, THEN conjunct1, rule_format, OF m] m
  show ?thesis by blast
qed

text \<open>
  C10 as stated fails when the write itself fails after the file was opened: the merge of
  the example dependency metadata for \<open>Zlib\<close> with the truncating write returns \<^verbatim>\<open>False\<close>,
  and the custom software SBOM file, which held the initial document, no longer holds it.
\<close>

theorem C10_failed_merge_leaves_file_counterexample:
  "MergeDependencyMetadataSbomIntoCustomSoftwareSbom_with truncating_write
       example_context Zlib example_lookup
       \<lparr> content = Json example_fragment, writable = False \<rparr>
       \<lparr> content = Json example_initial, writable = True \<rparr> =
     (False,
      [Warn (merge_warning ''zlib'' (OSError ''No space left on device''))],
      \<lparr> content = NotJson, writable = True \<rparr>) \<and>
   \<lparr> content = NotJson, writable = True \<rparr> \<noteq> \<lparr> content = Json example_initial, writable = True \<rparr>"
  by (simp add: MergeDependencyMetadataSbomIntoCustomSoftwareSbom_with_def
        merge_try_block_with_def merge_components_and_dependencies_def read_json_def
        truncating_write_def example_fragment_def example_initial_def example_lookup_def
        py_getitem_def py_setitem_def py_iter_def py_hash_def py_key_def
        py_append_def py_contains_def lookup_project_def)


end
